theory Spec2Isabelle
  imports Main "HOL-Library.Word" "HOL-Library.Sublist"
begin

section \<open>JavaScript strings\<close>

text \<open>
  A JavaScript string is a sequence of 16-bit code units. String literals of the source
  are ASCII and are written \<open>lit ''...''\<close>.
\<close>

type_synonym js_string = "16 word list"

definition lit :: "string \<Rightarrow> js_string" where
  "lit s = map of_char s"

text \<open>
  \<open>String.prototype.trim\<close> removes leading and trailing WhiteSpace and LineTerminator
  code units (ECMAScript: TAB, LF, VT, FF, CR, SP, NBSP, the Unicode space separators,
  LS, PS and the byte order mark).
\<close>

definition is_white_space :: "16 word \<Rightarrow> bool" where
  "is_white_space c \<longleftrightarrow>
     (0x09 \<le> c \<and> c \<le> 0x0D) \<or> c = 0x20 \<or> c = 0xA0 \<or> c = 0x1680 \<or>
     (0x2000 \<le> c \<and> c \<le> 0x200A) \<or> c = 0x2028 \<or> c = 0x2029 \<or> c = 0x202F \<or>
     c = 0x205F \<or> c = 0x3000 \<or> c = 0xFEFF"

definition trim :: "js_string \<Rightarrow> js_string" where
  "trim s = rev (dropWhile is_white_space (rev (dropWhile is_white_space s)))"

text \<open>
  \<open>s.split(sep)\<close> for a separator of one code unit, the only form the source uses.
  The result is never empty: \<open>"".split(",")\<close> is \<open>[""]\<close>.
\<close>

fun js_split :: "16 word \<Rightarrow> js_string \<Rightarrow> js_string list" where
  "js_split sep [] = [[]]"
| "js_split sep (c # cs) =
     (if c = sep then [] # js_split sep cs
      else (case js_split sep cs of
              [] \<Rightarrow> [[c]]
            | p # ps \<Rightarrow> (c # p) # ps))"

text \<open>Array indexing \<open>xs[i]\<close>: \<open>undefined\<close> (here \<open>None\<close>) out of range.\<close>

fun index :: "'a list \<Rightarrow> nat \<Rightarrow> 'a option" where
  "index [] i = None"
| "index (x # xs) 0 = Some x"
| "index (x # xs) (Suc i) = index xs i"

text \<open>A value interpolated into a template literal: \<open>undefined\<close> prints as such.\<close>

definition template_str :: "js_string option \<Rightarrow> js_string" where
  "template_str v = (case v of None \<Rightarrow> lit ''undefined'' | Some s \<Rightarrow> s)"

text \<open>A piece of a template between double quotes (code unit 0x22).\<close>

definition quoted :: "js_string \<Rightarrow> js_string" where
  "quoted s = [0x22] @ s @ [0x22]"

text \<open>
  An integral \<open>Number\<close> interpolated into a template literal, for a magnitude below
  \<open>10^21\<close> (\<open>Date.now()\<close> is one): its decimal digits, with a sign when negative.
\<close>

fun decimal_digits :: "nat \<Rightarrow> js_string" where
  "decimal_digits n =
     (if n < 10 then [0x30 + of_nat n]
      else decimal_digits (n div 10) @ [0x30 + of_nat (n mod 10)])"

definition integer_to_string :: "int \<Rightarrow> js_string" where
  "integer_to_string i =
     (if i < 0 then 0x2D # decimal_digits (nat (- i)) else decimal_digits (nat i))"

text \<open>\<open>Array.prototype.join\<close>.\<close>

fun js_join :: "js_string \<Rightarrow> js_string list \<Rightarrow> js_string" where
  "js_join sep [] = []"
| "js_join sep [x] = x"
| "js_join sep (x # y # ys) = x @ sep @ js_join sep (y # ys)"

section \<open>Thrown values\<close>

text \<open>
  What a \<open>catch\<close> clause can receive: an \<open>Error\<close> instance created by the source with
  its message; an error raised by the engine, which is an \<open>Error\<close> instance whose message
  the engine chooses (a \<open>TypeError\<close> on a property access of \<open>undefined\<close> or \<open>null\<close>,
  a \<open>SyntaxError\<close> of \<open>JSON.parse\<close>); or a value that is no \<open>Error\<close> instance.
\<close>

datatype engine_error = TypeError | SyntaxError

datatype thrown = Error js_string | Engine engine_error | NonError

datatype 'a promise = Rejected thrown | Resolved 'a

section \<open>JSON values and JSON.parse\<close>

text \<open>
  The values \<open>JSON.parse\<close> can produce. An object keeps its members in source order;
  a later member with the same key overrides an earlier one.
\<close>

datatype json =
    JNull
  | JBool bool
  | JNumber js_string
  | JString js_string
  | JArray "json list"
  | JObject "(js_string \<times> json) list"

text \<open>
  The lexer. A string token holds the decoded code units; a number token holds its
  lexeme (the conversion to a \<open>Number\<close> is floating point and is left to the engine).
\<close>

datatype token =
    TLBrace | TRBrace | TLBracket | TRBracket | TColon | TComma
  | TString js_string | TNumber js_string | TTrue | TFalse | TNull

definition is_digit :: "16 word \<Rightarrow> bool" where
  "is_digit c \<longleftrightarrow> 0x30 \<le> c \<and> c \<le> 0x39"

definition hex_digit :: "16 word \<Rightarrow> 16 word option" where
  "hex_digit c =
     (if 0x30 \<le> c \<and> c \<le> 0x39 then Some (c - 0x30)
      else if 0x41 \<le> c \<and> c \<le> 0x46 then Some (c - 0x37)
      else if 0x61 \<le> c \<and> c \<le> 0x66 then Some (c - 0x57)
      else None)"

definition hex4 :: "16 word \<Rightarrow> 16 word \<Rightarrow> 16 word \<Rightarrow> 16 word \<Rightarrow> 16 word option" where
  "hex4 a b c d =
     (case (hex_digit a, hex_digit b, hex_digit c, hex_digit d) of
        (Some w, Some x, Some y, Some z) \<Rightarrow> Some (((w * 16 + x) * 16 + y) * 16 + z)
      | _ \<Rightarrow> None)"

definition simple_escape :: "16 word \<Rightarrow> 16 word option" where
  "simple_escape e =
     (if e = 0x22 then Some 0x22
      else if e = 0x5C then Some 0x5C
      else if e = 0x2F then Some 0x2F
      else if e = 0x62 then Some 0x08
      else if e = 0x66 then Some 0x0C
      else if e = 0x6E then Some 0x0A
      else if e = 0x72 then Some 0x0D
      else if e = 0x74 then Some 0x09
      else None)"

definition cons_fst :: "'a \<Rightarrow> ('a list \<times> 'b) option \<Rightarrow> ('a list \<times> 'b) option" where
  "cons_fst x r = (case r of None \<Rightarrow> None | Some (xs, rest) \<Rightarrow> Some (x # xs, rest))"

text \<open>
  The characters of a string after its opening quote: the decoded string and the input
  after the closing quote. Control characters below 0x20 need an escape.
\<close>

fun lex_string :: "js_string \<Rightarrow> (js_string \<times> js_string) option" where
  "lex_string [] = None"
| "lex_string (c # cs) =
     (if c = 0x22 then Some ([], cs)
      else if c = 0x5C then
        (case cs of
           [] \<Rightarrow> None
         | e # es \<Rightarrow>
             if e = 0x75 then
               (case es of
                  h1 # h2 # h3 # h4 # r \<Rightarrow>
                    (case hex4 h1 h2 h3 h4 of
                       None \<Rightarrow> None
                     | Some u \<Rightarrow> cons_fst u (lex_string r))
                | _ \<Rightarrow> None)
             else
               (case simple_escape e of
                  None \<Rightarrow> None
                | Some x \<Rightarrow> cons_fst x (lex_string es)))
      else if c < 0x20 then None
      else cons_fst c (lex_string cs))"

text \<open>
  The number grammar: an optional minus, \<open>0\<close> or a digit sequence without leading zero,
  an optional fraction, an optional exponent.
\<close>

definition is_number_char :: "16 word \<Rightarrow> bool" where
  "is_number_char c \<longleftrightarrow> is_digit c \<or> c = 0x2D \<or> c = 0x2B \<or> c = 0x2E \<or> c = 0x65 \<or> c = 0x45"

definition digits1 :: "js_string \<Rightarrow> bool" where
  "digits1 s \<longleftrightarrow> s \<noteq> [] \<and> list_all is_digit s"

definition is_exponent :: "js_string \<Rightarrow> bool" where
  "is_exponent s =
     (case s of
        [] \<Rightarrow> True
      | e # r \<Rightarrow> (e = 0x65 \<or> e = 0x45) \<and>
          (case r of
             [] \<Rightarrow> False
           | g # ds \<Rightarrow> if g = 0x2B \<or> g = 0x2D then digits1 ds else digits1 r))"

definition is_fraction_exponent :: "js_string \<Rightarrow> bool" where
  "is_fraction_exponent s =
     (case s of
        [] \<Rightarrow> True
      | d # r \<Rightarrow>
          if d = 0x2E then takeWhile is_digit r \<noteq> [] \<and> is_exponent (dropWhile is_digit r)
          else is_exponent s)"

definition is_json_number :: "js_string \<Rightarrow> bool" where
  "is_json_number s =
     (let u = (case s of [] \<Rightarrow> [] | c # r \<Rightarrow> if c = 0x2D then r else s) in
      case u of
        [] \<Rightarrow> False
      | d # r \<Rightarrow>
          if d = 0x30 then is_fraction_exponent r
          else is_digit d \<and> is_fraction_exponent (dropWhile is_digit r))"

definition is_json_ws :: "16 word \<Rightarrow> bool" where
  "is_json_ws c \<longleftrightarrow> c = 0x20 \<or> c = 0x09 \<or> c = 0x0A \<or> c = 0x0D"

definition strip_prefix :: "'a list \<Rightarrow> 'a list \<Rightarrow> 'a list option" where
  "strip_prefix p s = (if take (length p) s = p then Some (drop (length p) s) else None)"

definition cons_opt :: "'a \<Rightarrow> 'a list option \<Rightarrow> 'a list option" where
  "cons_opt x r = map_option ((#) x) r"

text \<open>
  A number token is the longest run of number characters, checked against the grammar.
  The length test after \<open>lex_string\<close> always succeeds (the rest is a suffix of the
  input); it makes the recursion visibly decreasing.
\<close>

function tokenize :: "js_string \<Rightarrow> token list option" where
  "tokenize [] = Some []"
| "tokenize (c # cs) =
     (if is_json_ws c then tokenize cs
      else if c = 0x7B then cons_opt TLBrace (tokenize cs)
      else if c = 0x7D then cons_opt TRBrace (tokenize cs)
      else if c = 0x5B then cons_opt TLBracket (tokenize cs)
      else if c = 0x5D then cons_opt TRBracket (tokenize cs)
      else if c = 0x3A then cons_opt TColon (tokenize cs)
      else if c = 0x2C then cons_opt TComma (tokenize cs)
      else if c = 0x22 then
        (case lex_string cs of
           None \<Rightarrow> None
         | Some (str, rest) \<Rightarrow>
             if length rest \<le> length cs then cons_opt (TString str) (tokenize rest) else None)
      else if is_number_char c then
        (if is_json_number (c # takeWhile is_number_char cs)
         then cons_opt (TNumber (c # takeWhile is_number_char cs))
                (tokenize (dropWhile is_number_char cs))
         else None)
      else if take 3 cs = lit ''rue'' \<and> c = 0x74 then cons_opt TTrue (tokenize (drop 3 cs))
      else if take 4 cs = lit ''alse'' \<and> c = 0x66 then cons_opt TFalse (tokenize (drop 4 cs))
      else if take 3 cs = lit ''ull'' \<and> c = 0x6E then cons_opt TNull (tokenize (drop 3 cs))
      else None)"
  by pat_completeness auto
termination
  by (relation "measure length") (auto simp: length_dropWhile_le less_Suc_eq_le)

text \<open>
  The parser, by recursive descent: a value, the elements of an array after its opening
  bracket, the members of an object after its opening brace. Each returns the input that
  is left; the length tests always succeed and make the recursion visibly decreasing.
\<close>

fun parse_value :: "token list \<Rightarrow> (json \<times> token list) option"
  and parse_elements :: "token list \<Rightarrow> (json list \<times> token list) option"
  and parse_members :: "token list \<Rightarrow> ((js_string \<times> json) list \<times> token list) option" where
  "parse_value [] = None"
| "parse_value (t # ts) =
     (case t of
        TNull \<Rightarrow> Some (JNull, ts)
      | TTrue \<Rightarrow> Some (JBool True, ts)
      | TFalse \<Rightarrow> Some (JBool False, ts)
      | TString s \<Rightarrow> Some (JString s, ts)
      | TNumber n \<Rightarrow> Some (JNumber n, ts)
      | TLBracket \<Rightarrow>
          (if take 1 ts = [TRBracket] then Some (JArray [], drop 1 ts)
           else (case parse_elements ts of
                   None \<Rightarrow> None
                 | Some (vs, r) \<Rightarrow> Some (JArray vs, r)))
      | TLBrace \<Rightarrow>
          (if take 1 ts = [TRBrace] then Some (JObject [], drop 1 ts)
           else (case parse_members ts of
                   None \<Rightarrow> None
                 | Some (ms, r) \<Rightarrow> Some (JObject ms, r)))
      | _ \<Rightarrow> None)"
| "parse_elements ts =
     (case parse_value ts of
        None \<Rightarrow> None
      | Some (v, r) \<Rightarrow>
          if length r < length ts then
            (case r of
               TRBracket # r' \<Rightarrow> Some ([v], r')
             | TComma # r' \<Rightarrow> cons_fst v (parse_elements r')
             | _ \<Rightarrow> None)
          else None)"
| "parse_members ts =
     (case ts of
        TString k # TColon # r \<Rightarrow>
          (case parse_value r of
             None \<Rightarrow> None
           | Some (v, r1) \<Rightarrow>
               if length r1 < length r then
                 (case r1 of
                    TRBrace # r2 \<Rightarrow> Some ([(k, v)], r2)
                  | TComma # r2 \<Rightarrow> cons_fst (k, v) (parse_members r2)
                  | _ \<Rightarrow> None)
               else None)
      | _ \<Rightarrow> None)"

text \<open>\<open>JSON.parse\<close>: \<open>None\<close> is the \<open>SyntaxError\<close>.\<close>

definition JSON_parse :: "js_string \<Rightarrow> json option" where
  "JSON_parse s =
     (case tokenize s of
        None \<Rightarrow> None
      | Some ts \<Rightarrow>
          (case parse_value ts of
             Some (v, []) \<Rightarrow> Some v
           | _ \<Rightarrow> None))"

text \<open>Property lookup on a parsed object: the last member with the key.\<close>

definition get_property :: "(js_string \<times> json) list \<Rightarrow> js_string \<Rightarrow> json option" where
  "get_property ms k = map_of (rev ms) k"

text \<open>
  The value of \<open>v.seoTitle\<close>: a \<open>TypeError\<close> on \<open>null\<close>, the member of an object, and
  \<open>undefined\<close> on an object without the member and on every other value.
\<close>

definition seoTitle_of :: "json \<Rightarrow> thrown + json option" where
  "seoTitle_of v =
     (case v of
        JNull \<Rightarrow> Inl (Engine TypeError)
      | JObject ms \<Rightarrow> Inr (get_property ms (lit ''seoTitle''))
      | _ \<Rightarrow> Inr None)"

text \<open>
  \<open>ToString\<close> of a parsed value, as a template literal applies it; \<open>None\<close> is the
  \<open>TypeError\<close> of the conversion. An array joins its elements with commas, \<open>null\<close>
  elements printing as the empty string. An object prints as \<open>[object Object]\<close>, unless
  it has a member \<open>toString\<close>: the member hides \<open>Object.prototype.toString\<close>, is not
  callable, and the conversion to a primitive fails.
\<close>

fun json_to_string :: "(js_string \<Rightarrow> js_string) \<Rightarrow> json \<Rightarrow> js_string option" where
  "json_to_string num JNull = Some (lit ''null'')"
| "json_to_string num (JBool b) = Some (if b then lit ''true'' else lit ''false'')"
| "json_to_string num (JNumber n) = Some (num n)"
| "json_to_string num (JString s) = Some s"
| "json_to_string num (JArray xs) =
     map_option (js_join (lit '',''))
       (those (map (\<lambda>x. if x = JNull then Some [] else json_to_string num x) xs))"
| "json_to_string num (JObject ms) =
     (if get_property ms (lit ''toString'') = None then Some (lit ''[object Object]'')
      else None)"

text \<open>A value in a template literal: \<open>undefined\<close> prints as such.\<close>

definition template_value ::
  "(js_string \<Rightarrow> js_string) \<Rightarrow> json option \<Rightarrow> thrown + js_string" where
  "template_value num v =
     (case v of
        None \<Rightarrow> Inr (lit ''undefined'')
      | Some x \<Rightarrow>
          (case json_to_string num x of
             None \<Rightarrow> Inl (Engine TypeError)
           | Some t \<Rightarrow> Inr t))"

section \<open>The provider interface (@google/genai)\<close>

text \<open>
  The SDK's \<open>Part\<close> has an optional \<open>inlineData\<close> blob and an optional \<open>text\<close>; a blob
  has optional \<open>data\<close> and \<open>mimeType\<close>. The first field of each constructor below is
  listed first.
\<close>

datatype blob = Blob "js_string option" "js_string option"

datatype part = Part "blob option" "js_string option"

datatype contents = Prompt js_string | Parts "part list"

datatype gc_config =
    JsonSchema js_string "js_string list"
  | ResponseModalities "js_string list"

datatype gi_config = ImagesConfig nat js_string js_string

datatype request =
    GenerateContent js_string contents gc_config
  | GenerateImages js_string js_string gi_config

datatype content = Content "part list option"

datatype candidate = Candidate "content option"

record gc_response =
  response_text :: "js_string option"
  candidates :: "candidate list option"

datatype image = Image "js_string option"

datatype generated_image = GeneratedImage "image option"

record gi_response =
  generatedImages :: "generated_image list option"

text \<open>
  The environment of a run: how the provider settles each request, and the two
  engine-defined conversions the handlers can reach (the message of an engine error,
  and \<open>Number\<close> to string for a JSON number given by its lexeme).
\<close>

record env =
  generateContent :: "request \<Rightarrow> gc_response promise"
  generateImages :: "request \<Rightarrow> gi_response promise"
  engineErrorMessage :: "engine_error \<Rightarrow> js_string"
  numberToString :: "js_string \<Rightarrow> js_string"

section \<open>services/geminiService.ts\<close>

text \<open>
  Each function sends one request and returns what the caller's \<open>await\<close> receives:
  \<open>Inl\<close> the thrown value, \<open>Inr\<close> the result. The second component is the list of
  requests sent to the provider. The \<open>console.error\<close> of each \<open>catch\<close> clause is not
  modelled.
\<close>

subsection \<open>generateTextContent\<close>

definition generateTextContent_request :: "js_string \<Rightarrow> request" where
  "generateTextContent_request title =
     GenerateContent (lit ''gemini-2.5-flash'')
       (Prompt
         (lit ''You are an expert YouTube content strategist. A creator has a video idea with the working title: ''
          @ quoted title
          @ lit ''. Your task is to generate the following assets in JSON format: 1. seoTitle: A highly engaging and SEO-optimized title that will attract clicks. 2. description: A detailed and compelling YouTube video description. It should include a hook at the beginning, a summary of the video, relevant keywords, and placeholder calls-to-action (e.g., for subscribing or following on social media). Format it with paragraphs for readability.''))
       (JsonSchema (lit ''application/json'') [lit ''seoTitle'', lit ''description''])"

text \<open>
  The body of the \<open>try\<close> block, given the settled provider call. The cast
  \<open>parsedJson as GeneratedTextContent\<close> is erased at run time: the parsed value is
  returned as it is.
\<close>

definition generateTextContent_try :: "gc_response promise \<Rightarrow> thrown + json" where
  "generateTextContent_try p =
     (case p of
        Rejected e \<Rightarrow> Inl e
      | Resolved response \<Rightarrow>
          (case response_text response of
             None \<Rightarrow> Inl (Engine TypeError)
           | Some t \<Rightarrow>
               (case JSON_parse (trim t) of
                  None \<Rightarrow> Inl (Engine SyntaxError)
                | Some parsedJson \<Rightarrow> Inr parsedJson)))"

definition generateTextContent :: "env \<Rightarrow> js_string \<Rightarrow> (thrown + json) \<times> request list" where
  "generateTextContent ai title =
     (let req = generateTextContent_request title in
      (case generateTextContent_try (generateContent ai req) of
         Inl e \<Rightarrow> Inl (Error (lit ''Failed to generate video details from AI.''))
       | Inr parsedJson \<Rightarrow> Inr parsedJson,
       [req]))"

subsection \<open>generateImageFromText\<close>

definition generateImageFromText_request :: "js_string \<Rightarrow> request" where
  "generateImageFromText_request prompt =
     GenerateImages (lit ''imagen-4.0-generate-001'') prompt
       (ImagesConfig 1 (lit ''image/jpeg'') (lit ''16:9''))"

definition generateImageFromText_try :: "gi_response promise \<Rightarrow> thrown + js_string" where
  "generateImageFromText_try p =
     (case p of
        Rejected e \<Rightarrow> Inl e
      | Resolved response \<Rightarrow>
          (case generatedImages response of
             None \<Rightarrow> Inl (Error (lit ''No thumbnail was generated.''))
           | Some [] \<Rightarrow> Inl (Error (lit ''No thumbnail was generated.''))
           | Some (GeneratedImage None # _) \<Rightarrow> Inl (Engine TypeError)
           | Some (GeneratedImage (Some (Image base64ImageBytes)) # _) \<Rightarrow>
               Inr (lit ''data:image/jpeg;base64,'' @ template_str base64ImageBytes)))"

definition generateImageFromText :: "env \<Rightarrow> js_string \<Rightarrow> (thrown + js_string) \<times> request list" where
  "generateImageFromText ai prompt =
     (let req = generateImageFromText_request prompt in
      (case generateImageFromText_try (generateImages ai req) of
         Inl e \<Rightarrow> Inl (Error (lit ''Failed to generate thumbnail from AI.''))
       | Inr url \<Rightarrow> Inr url,
       [req]))"

subsection \<open>editImage\<close>

text \<open>The \<open>for ... of\<close> loop: the first part whose \<open>inlineData\<close> is present.\<close>

fun editImage_scan :: "part list \<Rightarrow> blob option" where
  "editImage_scan [] = None"
| "editImage_scan (Part (Some b) t # ps) = Some b"
| "editImage_scan (Part None t # ps) = editImage_scan ps"

definition editImage_request :: "js_string option \<Rightarrow> js_string \<Rightarrow> js_string \<Rightarrow> request" where
  "editImage_request base64ImageData mimeType' prompt =
     GenerateContent (lit ''gemini-2.5-flash-image-preview'')
       (Parts [Part (Some (Blob base64ImageData (Some mimeType'))) None,
               Part None (Some prompt)])
       (ResponseModalities [lit ''IMAGE'', lit ''TEXT''])"

text \<open>The body of the \<open>try\<close> block, given the settled provider call.\<close>

definition editImage_try :: "gc_response promise \<Rightarrow> thrown + js_string" where
  "editImage_try p =
     (case p of
        Rejected e \<Rightarrow> Inl e
      | Resolved response \<Rightarrow>
          (case candidates response of
             None \<Rightarrow> Inl (Engine TypeError)
           | Some [] \<Rightarrow> Inl (Engine TypeError)
           | Some (Candidate None # _) \<Rightarrow> Inl (Engine TypeError)
           | Some (Candidate (Some (Content None)) # _) \<Rightarrow> Inl (Engine TypeError)
           | Some (Candidate (Some (Content (Some ps))) # _) \<Rightarrow>
               (case editImage_scan ps of
                  Some (Blob base64ImageBytes newMimeType) \<Rightarrow>
                    Inr (lit ''data:'' @ template_str newMimeType @ lit '';base64,''
                         @ template_str base64ImageBytes)
                | None \<Rightarrow>
                    Inl (Error (lit
                      ''The AI did not return an image. It may have refused the request.'')))))"

text \<open>
  The whole function: the \<open>catch\<close> clause receives everything the \<open>try\<close> block throws,
  the \<open>Error\<close> of the missing image included, and throws a new \<open>Error\<close>.
\<close>

definition editImage ::
  "env \<Rightarrow> js_string option \<Rightarrow> js_string \<Rightarrow> js_string \<Rightarrow> (thrown + js_string) \<times> request list" where
  "editImage ai base64ImageData mimeType' prompt =
     (let req = editImage_request base64ImageData mimeType' prompt in
      (case editImage_try (generateContent ai req) of
         Inl e \<Rightarrow> Inl (Error (lit ''Failed to edit image with AI.''))
       | Inr url \<Rightarrow> Inr url,
       [req]))"

section \<open>App.tsx\<close>

subsection \<open>The component state\<close>

record user_image =
  data :: js_string
  mimeType :: js_string
  name :: js_string

text \<open>
  One field per \<open>useState\<close>. \<open>generatedContent\<close> is \<open>JNull\<close> for \<open>null\<close>; \<open>userImage\<close> is
  \<open>None\<close> for \<open>null\<close>.
\<close>

record app_state =
  videoIdea :: js_string
  generatedContent :: json
  thumbnailUrl :: js_string
  userImage :: "user_image option"
  thumbnailStyle :: js_string
  thumbnailPrompt :: js_string
  editPrompt :: js_string
  isLoading :: bool
  isTextLoading :: bool
  isThumbnailLoading :: bool
  error :: js_string
  copiedStates :: "js_string \<rightharpoonup> bool"

definition initial_state :: app_state where
  "initial_state =
     \<lparr>videoIdea = [], generatedContent = JNull, thumbnailUrl = [], userImage = None,
      thumbnailStyle = lit ''Cinematic'', thumbnailPrompt = [], editPrompt = [],
      isLoading = False, isTextLoading = False, isThumbnailLoading = False,
      error = [], copiedStates = Map.empty\<rparr>"

text \<open>
  A handler runs from the state \<open>s\<close> of the render that created it: what it reads are
  the fields of \<open>s\<close>, and its setters update the state. It returns the state after its
  last setter and the requests it sent to the provider, each with the state the
  component had when the request was sent.
\<close>

type_synonym calls = "(app_state \<times> request) list"

definition handleError :: "env \<Rightarrow> thrown \<Rightarrow> app_state \<Rightarrow> app_state" where
  "handleError rt err s =
     s\<lparr>error :=
         (case err of
            Error message \<Rightarrow> message
          | Engine k \<Rightarrow> engineErrorMessage rt k
          | NonError \<Rightarrow> lit ''An unknown error occurred. Please try again.'')\<rparr>"

subsection \<open>handleGenerateAll\<close>

definition styleInstruction :: "js_string \<Rightarrow> js_string" where
  "styleInstruction style =
     lit ''Style: '' @ style
     @ lit '', ultra-realistic, professional, high-contrast, eye-catching. IMPORTANT: Do NOT include any text, logos, or watermarks.''"

text \<open>
  The two templates of \<open>finalThumbnailPrompt\<close>; \<open>seoTitle\<close> is
  \<open>textContent.seoTitle\<close> as the template prints it.
\<close>

definition finalThumbnailPrompt :: "user_image option \<Rightarrow> js_string \<Rightarrow> js_string \<Rightarrow> js_string" where
  "finalThumbnailPrompt img seoTitle style =
     (case img of
        Some u \<Rightarrow>
          lit ''Incorporate the subject from the provided image into a new scene for a YouTube thumbnail about ''
          @ quoted seoTitle @ lit ''. '' @ styleInstruction style
      | None \<Rightarrow>
          lit ''Create a YouTube thumbnail for a video titled ''
          @ quoted seoTitle @ lit ''. '' @ styleInstruction style)"

text \<open>
  The \<open>try\<close> block. \<open>s\<close> is the state the handler reads, \<open>s1\<close> the state after the
  setters that precede the block. Reading \<open>textContent.seoTitle\<close> and printing it into
  the template can raise a \<open>TypeError\<close> (on \<open>null\<close>, and on a title that cannot be
  converted to a string).
\<close>

definition handleGenerateAll_try ::
  "env \<Rightarrow> app_state \<Rightarrow> app_state \<Rightarrow> (thrown + unit) \<times> app_state \<times> calls" where
  "handleGenerateAll_try ai s s1 =
     (case generateTextContent ai (videoIdea s) of
        (Inl e, reqs) \<Rightarrow> (Inl e, s1, map (Pair s1) reqs)
      | (Inr textContent, reqs) \<Rightarrow>
          (let s2 = s1\<lparr>generatedContent := textContent, isTextLoading := False\<rparr> in
           case seoTitle_of textContent of
             Inl e \<Rightarrow> (Inl e, s2, map (Pair s1) reqs)
           | Inr seoTitle \<Rightarrow>
               (case template_value (numberToString ai) seoTitle of
                  Inl e \<Rightarrow> (Inl e, s2, map (Pair s1) reqs)
                | Inr title \<Rightarrow>
                    (let prompt = finalThumbnailPrompt (userImage s) title (thumbnailStyle s);
                         s3 = s2\<lparr>thumbnailPrompt := prompt\<rparr>;
                         (r, reqs') =
                           (case userImage s of
                              Some u \<Rightarrow> editImage ai (Some (data u)) (mimeType u) prompt
                            | None \<Rightarrow> generateImageFromText ai prompt)
                     in (case r of
                           Inl e \<Rightarrow> (Inl e, s3, map (Pair s1) reqs @ map (Pair s3) reqs')
                         | Inr imageUrl \<Rightarrow>
                             (Inr (), s3\<lparr>thumbnailUrl := imageUrl\<rparr>,
                              map (Pair s1) reqs @ map (Pair s3) reqs'))))))"

definition handleGenerateAll :: "env \<Rightarrow> app_state \<Rightarrow> app_state \<times> calls" where
  "handleGenerateAll ai s =
     (if trim (videoIdea s) = [] then
        (s\<lparr>error := lit ''Please enter a video idea first.''\<rparr>, [])
      else
        (let s1 = s\<lparr>isLoading := True, isTextLoading := True, isThumbnailLoading := True,
                    error := [], generatedContent := JNull, thumbnailUrl := [],
                    copiedStates := Map.empty\<rparr>;
             (r, s2, sent) = handleGenerateAll_try ai s s1;
             s3 = (case r of
                     Inl err \<Rightarrow> (handleError ai err s2)\<lparr>isTextLoading := False\<rparr>
                   | Inr _ \<Rightarrow> s2)
         in (s3\<lparr>isThumbnailLoading := False, isLoading := False\<rparr>, sent)))"

subsection \<open>handleRegenerateThumbnail\<close>

definition handleRegenerateThumbnail :: "env \<Rightarrow> app_state \<Rightarrow> app_state \<times> calls" where
  "handleRegenerateThumbnail ai s =
     (if trim (thumbnailPrompt s) = [] then
        (s\<lparr>error := lit ''Thumbnail prompt cannot be empty.''\<rparr>, [])
      else
        (let s1 = s\<lparr>isThumbnailLoading := True, error := [], editPrompt := []\<rparr>;
             (r, reqs) =
               (case userImage s of
                  Some u \<Rightarrow> editImage ai (Some (data u)) (mimeType u) (thumbnailPrompt s)
                | None \<Rightarrow> generateImageFromText ai (thumbnailPrompt s));
             s2 = (case r of
                     Inr imageUrl \<Rightarrow> s1\<lparr>thumbnailUrl := imageUrl\<rparr>
                   | Inl err \<Rightarrow> handleError ai err s1)
         in (s2\<lparr>isThumbnailLoading := False\<rparr>, map (Pair s1) reqs)))"

subsection \<open>handleEditThumbnail\<close>

text \<open>
  The \<open>try\<close> block: \<open>meta\<close> and \<open>base64Data\<close> are the first two pieces of the thumbnail
  URL split at commas (\<open>base64Data\<close> is \<open>undefined\<close> when there is no comma), and
  \<open>meta.split(':')[1].split(';')[0]\<close> raises a \<open>TypeError\<close> when \<open>meta\<close> has no colon.
\<close>

definition handleEditThumbnail_try ::
  "env \<Rightarrow> app_state \<Rightarrow> (thrown + js_string) \<times> request list" where
  "handleEditThumbnail_try ai s =
     (let pieces = js_split 0x2C (thumbnailUrl s);
          base64Data = index pieces 1
      in case index pieces 0 of
           None \<Rightarrow> (Inl (Engine TypeError), [])
         | Some meta \<Rightarrow>
             (case index (js_split 0x3A meta) 1 of
                None \<Rightarrow> (Inl (Engine TypeError), [])
              | Some t \<Rightarrow>
                  (case index (js_split 0x3B t) 0 of
                     None \<Rightarrow> (Inl (Engine TypeError), [])
                   | Some mimeType' \<Rightarrow> editImage ai base64Data mimeType' (editPrompt s))))"

definition handleEditThumbnail :: "env \<Rightarrow> app_state \<Rightarrow> app_state \<times> calls" where
  "handleEditThumbnail ai s =
     (if trim (editPrompt s) = [] then
        (s\<lparr>error := lit ''Edit prompt cannot be empty.''\<rparr>, [])
      else if thumbnailUrl s = [] then
        (s\<lparr>error := lit ''Generate a thumbnail first before editing.''\<rparr>, [])
      else
        (let s1 = s\<lparr>isThumbnailLoading := True, error := []\<rparr>;
             (r, reqs) = handleEditThumbnail_try ai s;
             s2 = (case r of
                     Inr imageUrl \<Rightarrow> s1\<lparr>thumbnailUrl := imageUrl\<rparr>
                   | Inl err \<Rightarrow> handleError ai err s1)
         in (s2\<lparr>isThumbnailLoading := False\<rparr>, map (Pair s1) reqs)))"

subsection \<open>handleDownloadThumbnail\<close>

text \<open>The anchor element the handler creates and clicks.\<close>

record anchor =
  href :: js_string
  download :: js_string

text \<open>
  \<open>now\<close> is the value of \<open>Date.now()\<close>. The handler calls no setter: the state it
  returns is the one it was given. The second component is the anchor clicked, if any.
\<close>

definition handleDownloadThumbnail :: "int \<Rightarrow> app_state \<Rightarrow> app_state \<times> anchor option" where
  "handleDownloadThumbnail now s =
     (if thumbnailUrl s = [] then (s, None)
      else
        (let mimeType' =
               (case index (js_split 0x3A (thumbnailUrl s)) 1 of
                  None \<Rightarrow> None
                | Some t \<Rightarrow> index (js_split 0x3B t) 0);
             subtype =
               (case mimeType' of
                  None \<Rightarrow> None
                | Some m \<Rightarrow> index (js_split 0x2F m) 1);
             extension =
               (case subtype of
                  None \<Rightarrow> lit ''jpeg''
                | Some e \<Rightarrow> if e = [] then lit ''jpeg'' else e)
         in (s, Some \<lparr>href = thumbnailUrl s,
                       download = lit ''dekhao-thumbnail-'' @ integer_to_string now
                                  @ lit ''.'' @ extension\<rparr>)))"

subsection \<open>Sequential runs\<close>

text \<open>
  The states the component can be in between handler runs, when each run finishes
  before the next event: the initial state, the input fields changed by the user
  (the \<open>onChange\<close> setters, the file upload and its removal, the clipboard flags), and
  the state a handler leaves.
\<close>

inductive reachable :: "app_state \<Rightarrow> bool" where
  reachable_initial: "reachable initial_state"
| reachable_input:
    "reachable s \<Longrightarrow>
     reachable (s\<lparr>videoIdea := idea, userImage := img, thumbnailStyle := style,
                  thumbnailPrompt := prompt, editPrompt := instruction,
                  copiedStates := copied\<rparr>)"
| reachable_generateAll: "reachable s \<Longrightarrow> reachable (fst (handleGenerateAll ai s))"
| reachable_regenerate: "reachable s \<Longrightarrow> reachable (fst (handleRegenerateThumbnail ai s))"
| reachable_edit: "reachable s \<Longrightarrow> reachable (fst (handleEditThumbnail ai s))"
| reachable_download: "reachable s \<Longrightarrow> reachable (fst (handleDownloadThumbnail now s))"

section \<open>Concrete environments and states\<close>

text \<open>
  Providers and states on which the statements below are evaluated. \<open>refusing_env\<close>
  answers every \<open>generateContent\<close> request with a single text part (the model declines
  to produce an image); \<open>text_env t\<close> answers with the text \<open>t\<close>; \<open>failing_env\<close> rejects
  every request; \<open>demo_env\<close> answers the text request with a JSON object of the
  requested shape, the edit request with a text part followed by a PNG, and the image
  request with one image.
\<close>

definition refusing_env :: env where
  "refusing_env =
     \<lparr>generateContent =
        (\<lambda>r. Resolved
           \<lparr>response_text = Some (lit ''I cannot do that.''),
            candidates =
              Some [Candidate (Some (Content (Some
                [Part None (Some (lit ''I cannot do that.''))])))]\<rparr>),
      generateImages = (\<lambda>r. Rejected NonError),
      engineErrorMessage = (\<lambda>k. lit ''TypeError''),
      numberToString = (\<lambda>n. n)\<rparr>"

definition text_env :: "js_string \<Rightarrow> env" where
  "text_env t =
     \<lparr>generateContent = (\<lambda>r. Resolved \<lparr>response_text = Some t, candidates = None\<rparr>),
      generateImages = (\<lambda>r. Rejected NonError),
      engineErrorMessage = (\<lambda>k. lit ''TypeError''),
      numberToString = (\<lambda>n. n)\<rparr>"

definition failing_env :: env where
  "failing_env =
     \<lparr>generateContent = (\<lambda>r. Rejected NonError),
      generateImages = (\<lambda>r. Rejected NonError),
      engineErrorMessage = (\<lambda>k. lit ''TypeError''),
      numberToString = (\<lambda>n. n)\<rparr>"

definition demo_json :: js_string where
  "demo_json =
     lit ''{'' @ quoted (lit ''seoTitle'') @ lit '': '' @ quoted (lit ''Camera Unboxing'')
     @ lit '', '' @ quoted (lit ''description'') @ lit '': '' @ quoted (lit ''A first look.'')
     @ lit ''}''"

definition demo_env :: env where
  "demo_env =
     \<lparr>generateContent =
        (\<lambda>r. case r of
           GenerateContent m c (JsonSchema t fs) \<Rightarrow>
             Resolved \<lparr>response_text = Some demo_json, candidates = None\<rparr>
         | GenerateContent m c (ResponseModalities ms) \<Rightarrow>
             Resolved
               \<lparr>response_text = Some (lit ''Done.''),
                candidates =
                  Some [Candidate (Some (Content (Some
                    [Part None (Some (lit ''Done.'')),
                     Part (Some (Blob (Some (lit ''QUJD'')) (Some (lit ''image/png'')))) None])))]\<rparr>
         | GenerateImages m p c \<Rightarrow> Rejected NonError),
      generateImages =
        (\<lambda>r. Resolved
           \<lparr>generatedImages = Some [GeneratedImage (Some (Image (Some (lit ''SlBH''))))]\<rparr>),
      engineErrorMessage = (\<lambda>k. lit ''TypeError''),
      numberToString = (\<lambda>n. n)\<rparr>"

definition blank_idea_state :: app_state where
  "blank_idea_state = initial_state\<lparr>videoIdea := lit ''   ''\<rparr>"

definition camera_state :: app_state where
  "camera_state =
     initial_state\<lparr>videoIdea := lit ''Unboxing a new camera'',
                    thumbnailPrompt := lit ''A red camera on a desk''\<rparr>"

definition thumbnail_state :: app_state where
  "thumbnail_state =
     initial_state\<lparr>thumbnailUrl := lit ''data:image/png;base64,QUJD'',
                    thumbnailPrompt := lit ''A red camera on a desk'',
                    editPrompt := lit ''add a lightning bolt'',
                    userImage := Some \<lparr>data = lit ''VVNFUg=='', mimeType = lit ''image/jpeg'',
                                        name = lit ''me.jpg''\<rparr>\<rparr>"

text \<open>A state with every busy flag set, on which every validation passes.\<close>

definition busy_state :: app_state where
  "busy_state =
     thumbnail_state\<lparr>videoIdea := lit ''Unboxing a new camera'', isLoading := True,
                      isTextLoading := True, isThumbnailLoading := True\<rparr>"

text \<open>
  The state after a successful GenerateAll on \<open>camera_state\<close>, with a prompt and a
  quick-edit instruction typed in afterwards.
\<close>

definition refined_state :: app_state where
  "refined_state =
     (fst (handleGenerateAll demo_env camera_state))
       \<lparr>videoIdea := lit ''Unboxing a new camera'', userImage := None,
        thumbnailStyle := lit ''Cinematic'',
        thumbnailPrompt := lit ''A red camera, dramatic light'',
        editPrompt := lit ''add a lightning bolt'', copiedStates := Map.empty\<rparr>"

text \<open>
  A thumbnail whose blob came without a mime type, as editImage builds it, and a
  thumbnail without a colon.
\<close>

definition untyped_thumbnail_state :: app_state where
  "untyped_thumbnail_state = initial_state\<lparr>thumbnailUrl := lit ''data:undefined;base64,QUJD''\<rparr>"

definition opaque_thumbnail_state :: app_state where
  "opaque_thumbnail_state = initial_state\<lparr>thumbnailUrl := lit ''QUJD''\<rparr>"

text \<open>
  The shape the specification expects of the text assets: a JSON object whose
  \<open>seoTitle\<close> and \<open>description\<close> are strings.
\<close>

definition spec_expected_shape :: "json \<Rightarrow> bool" where
  "spec_expected_shape v =
     (case v of
        JObject ms \<Rightarrow>
          (case (get_property ms (lit ''seoTitle''), get_property ms (lit ''description'')) of
             (Some (JString t), Some (JString d)) \<Rightarrow> True
           | _ \<Rightarrow> False)
      | _ \<Rightarrow> False)"

section \<open>Auxiliary facts\<close>

declare decimal_digits.simps [simp del]

subsection \<open>Strings\<close>

lemma lit_append: "lit (a @ b) = lit a @ lit b"
  by (simp add: lit_def)

lemma js_split_not_Nil: "js_split c s \<noteq> []"
  by (induction s) (auto split: list.splits)

lemma js_split_no_separator: "c \<notin> set a \<Longrightarrow> js_split c a = [a]"
  by (induction a) auto

lemma js_split_append: "c \<notin> set a \<Longrightarrow> js_split c (a @ c # b) = a # js_split c b"
  by (induction a) auto

lemma index_js_split_0: "index (js_split c s) 0 = Some (takeWhile (\<lambda>x. x \<noteq> c) s)"
proof (induction s)
  case Nil
  show ?case by simp
next
  case (Cons x xs)
  then show ?case
    using js_split_not_Nil [of c xs] by (cases "js_split c xs") auto
qed

lemma takeWhile_neq_append:
  "c \<notin> set a \<Longrightarrow> takeWhile (\<lambda>x. x \<noteq> c) (a @ ys) = a @ takeWhile (\<lambda>x. x \<noteq> c) ys"
  by (induction a) auto

subsection \<open>The length tests of the JSON parser\<close>

text \<open>
  The rest that the lexer and the parser return is shorter than their input, so the
  length tests in \<open>tokenize\<close>, \<open>parse_elements\<close> and \<open>parse_members\<close> never fail.
\<close>

lemma cons_fst_Some: "cons_fst x r = Some (ys, rest) \<Longrightarrow> \<exists>xs. r = Some (xs, rest) \<and> ys = x # xs"
  by (auto simp: cons_fst_def split: option.splits)

lemma lex_string_shorter: "lex_string s = Some (str, rest) \<Longrightarrow> length rest < length s"
proof (induction s arbitrary: str rest rule: lex_string.induct)
  case 1
  then show ?case by simp
next
  case (2 c cs)
  show ?case
    using "2.prems" "2.IH"
    by (fastforce dest!: cons_fst_Some split: if_splits list.splits option.splits)
qed

lemma parse_shorter:
  "parse_value ts = Some (v, r) \<Longrightarrow> length r < length ts"
  "parse_elements ts = Some (vs, r) \<Longrightarrow> length r < length ts"
  "parse_members ts = Some (ms, r) \<Longrightarrow> length r < length ts"
proof (induction ts and ts and ts arbitrary: v r and vs r and ms r
    rule: parse_value_parse_elements_parse_members.induct)
  case 1
  then show ?case by simp
next
  case (2 t ts)
  show ?case
  proof (cases t)
    case TLBracket
    show ?thesis
    proof (cases "take 1 ts = [TRBracket]")
      case True
      then have "ts \<noteq> []" by auto
      with "2.prems" TLBracket True show ?thesis by auto
    next
      case False
      with "2.prems" TLBracket obtain vs where pe: "parse_elements ts = Some (vs, r)"
        by (auto split: option.splits)
      from "2.IH"(2) [OF TLBracket False pe] show ?thesis by simp
    qed
  next
    case TLBrace
    show ?thesis
    proof (cases "take 1 ts = [TRBrace]")
      case True
      then have "ts \<noteq> []" by auto
      with "2.prems" TLBrace True show ?thesis by auto
    next
      case False
      with "2.prems" TLBrace obtain ms where pe: "parse_members ts = Some (ms, r)"
        by (auto split: option.splits)
      from "2.IH"(1) [OF TLBrace False pe] show ?thesis by simp
    qed
  qed (use "2.prems" in auto)
next
  case (3 ts)
  from "3.prems" obtain v r1 where pv: "parse_value ts = Some (v, r1)" and lt: "length r1 < length ts"
    by (auto split: option.splits if_splits)
  show ?case
  proof (cases r1)
    case Nil
    with "3.prems" pv lt show ?thesis by simp
  next
    case (Cons t r')
    show ?thesis
    proof (cases t)
      case TRBracket
      with "3.prems" pv lt Cons show ?thesis by auto
    next
      case TComma
      with "3.prems" pv lt Cons obtain vs' where pe: "parse_elements r' = Some (vs', r)"
        by (auto dest!: cons_fst_Some)
      have "length r < length r'"
        using "3.IH"(2) pv lt Cons TComma pe by blast
      with lt Cons show ?thesis by simp
    qed (use "3.prems" pv lt Cons in auto)
  qed
next
  case (4 ts)
  from "4.prems" obtain k rr where ts: "ts = TString k # TColon # rr"
    by (auto split: list.splits token.splits)
  from "4.prems" ts obtain v r1 where pv: "parse_value rr = Some (v, r1)" and lt: "length r1 < length rr"
    by (auto split: option.splits if_splits)
  show ?case
  proof (cases r1)
    case Nil
    with "4.prems" ts pv lt show ?thesis by simp
  next
    case (Cons t r')
    show ?thesis
    proof (cases t)
      case TRBrace
      with "4.prems" ts pv lt Cons show ?thesis by auto
    next
      case TComma
      with "4.prems" ts pv lt Cons obtain ms' where pe: "parse_members r' = Some (ms', r)"
        by (auto dest!: cons_fst_Some)
      have "length r < length r'"
        using "4.IH"(2) ts pv lt Cons TComma pe by blast
      with lt Cons ts show ?thesis by simp
    qed (use "4.prems" ts pv lt Cons in auto)
  qed
qed

lemma parse_elements_unguarded:
  "parse_elements ts =
     (case parse_value ts of
        None \<Rightarrow> None
      | Some (v, r) \<Rightarrow>
          (case r of
             TRBracket # r' \<Rightarrow> Some ([v], r')
           | TComma # r' \<Rightarrow> cons_fst v (parse_elements r')
           | _ \<Rightarrow> None))"
proof (cases "parse_value ts")
  case None
  then show ?thesis by simp
next
  case (Some p)
  obtain v r where p: "p = (v, r)" by (cases p)
  from Some p have "length r < length ts" by (simp add: parse_shorter(1))
  with Some p show ?thesis by simp
qed

subsection \<open>The requests of the gateway\<close>

lemma generateTextContent_sent:
  "snd (generateTextContent ai t) = [generateTextContent_request t]"
  by (simp add: generateTextContent_def Let_def)

lemma editImage_sent: "snd (editImage ai d m p) = [editImage_request d m p]"
  by (simp add: editImage_def Let_def)

lemma generateImageFromText_sent:
  "snd (generateImageFromText ai p) = [generateImageFromText_request p]"
  by (simp add: generateImageFromText_def Let_def)

lemma image_call_sent:
  "snd (case img of
          Some u \<Rightarrow> editImage ai (Some (data u)) (mimeType u) p
        | None \<Rightarrow> generateImageFromText ai p)
   = [case img of
        Some u \<Rightarrow> editImage_request (Some (data u)) (mimeType u) p
      | None \<Rightarrow> generateImageFromText_request p]"
  by (cases img) (simp_all add: editImage_sent generateImageFromText_sent)

lemma generateTextContent_failure:
  "fst (generateTextContent ai t) = Inl e \<Longrightarrow>
   e = Error (lit ''Failed to generate video details from AI.'')"
  by (auto simp: generateTextContent_def Let_def split: sum.splits)

lemma editImage_failure:
  "fst (editImage ai d m p) = Inl e \<Longrightarrow> e = Error (lit ''Failed to edit image with AI.'')"
  by (auto simp: editImage_def Let_def split: sum.splits)

subsection \<open>The thumbnail prompt\<close>

lemma sublist_styleInstruction:
  "sublist (lit ''Do NOT include any text'') (styleInstruction style)"
proof -
  have "'', ultra-realistic, professional, high-contrast, eye-catching. IMPORTANT: Do NOT include any text, logos, or watermarks.''
      = '', ultra-realistic, professional, high-contrast, eye-catching. IMPORTANT: '' @ ''Do NOT include any text'' @ '', logos, or watermarks.''"
    by simp
  then have "styleInstruction style =
      (lit ''Style: '' @ style @ lit '', ultra-realistic, professional, high-contrast, eye-catching. IMPORTANT: '')
      @ lit ''Do NOT include any text'' @ lit '', logos, or watermarks.''"
    unfolding styleInstruction_def by (simp only: lit_append append_assoc)
  then show ?thesis
    unfolding sublist_def by blast
qed

lemma sublist_finalThumbnailPrompt_title:
  "sublist t (finalThumbnailPrompt img t style)"
proof (cases img)
  case None
  have "finalThumbnailPrompt None t style =
      (lit ''Create a YouTube thumbnail for a video titled '' @ [0x22]) @ t
      @ ([0x22] @ lit ''. '' @ styleInstruction style)"
    by (simp add: finalThumbnailPrompt_def quoted_def)
  with None show ?thesis unfolding sublist_def by blast
next
  case (Some u)
  have "finalThumbnailPrompt (Some u) t style =
      (lit ''Incorporate the subject from the provided image into a new scene for a YouTube thumbnail about '' @ [0x22]) @ t
      @ ([0x22] @ lit ''. '' @ styleInstruction style)"
    by (simp add: finalThumbnailPrompt_def quoted_def)
  with Some show ?thesis unfolding sublist_def by blast
qed

lemma sublist_finalThumbnailPrompt_style:
  "sublist (lit ''Do NOT include any text'') (finalThumbnailPrompt img t style)"
proof -
  obtain pre where "finalThumbnailPrompt img t style = pre @ styleInstruction style"
    by (cases img) (simp_all add: finalThumbnailPrompt_def)
  moreover obtain a b where "styleInstruction style = a @ lit ''Do NOT include any text'' @ b"
    using sublist_styleInstruction [of style] unfolding sublist_def by blast
  ultimately have "finalThumbnailPrompt img t style = (pre @ a) @ lit ''Do NOT include any text'' @ b"
    by simp
  then show ?thesis unfolding sublist_def by blast
qed

subsection \<open>The try block of handleGenerateAll\<close>

lemma try_text_failure:
  assumes "fst (generateTextContent ai (videoIdea s)) = Inl e"
  shows "handleGenerateAll_try ai s s1 =
     (Inl (Error (lit ''Failed to generate video details from AI.'')), s1,
      [(s1, generateTextContent_request (videoIdea s))])"
proof -
  obtain r reqs where g: "generateTextContent ai (videoIdea s) = (r, reqs)"
    by (cases "generateTextContent ai (videoIdea s)")
  from g assms have r: "r = Inl e" by simp
  from g have reqs: "reqs = [generateTextContent_request (videoIdea s)]"
    using generateTextContent_sent [of ai "videoIdea s"] by simp
  from assms have e: "e = Error (lit ''Failed to generate video details from AI.'')"
    by (rule generateTextContent_failure)
  show ?thesis
    by (simp add: handleGenerateAll_try_def g r reqs e)
qed

lemma try_text_success:
  assumes g: "fst (generateTextContent ai (videoIdea s)) = Inr (JObject ms)"
    and t: "get_property ms (lit ''seoTitle'') = Some (JString seoTitle)"
  shows "\<exists>r s4. handleGenerateAll_try ai s s1 =
     (r, s4,
      [(s1, generateTextContent_request (videoIdea s)),
       (s1\<lparr>generatedContent := JObject ms, isTextLoading := False,
           thumbnailPrompt := finalThumbnailPrompt (userImage s) seoTitle (thumbnailStyle s)\<rparr>,
        case userImage s of
          Some u \<Rightarrow> editImage_request (Some (data u)) (mimeType u)
                      (finalThumbnailPrompt (userImage s) seoTitle (thumbnailStyle s))
        | None \<Rightarrow> generateImageFromText_request
                      (finalThumbnailPrompt (userImage s) seoTitle (thumbnailStyle s)))])
     \<and> thumbnailPrompt s4 = finalThumbnailPrompt (userImage s) seoTitle (thumbnailStyle s)"
proof -
  obtain reqs where g': "generateTextContent ai (videoIdea s) = (Inr (JObject ms), reqs)"
    using g by (cases "generateTextContent ai (videoIdea s)") simp
  have reqs: "reqs = [generateTextContent_request (videoIdea s)]"
    using generateTextContent_sent [of ai "videoIdea s"] g' by simp
  let ?p = "finalThumbnailPrompt (userImage s) seoTitle (thumbnailStyle s)"
  let ?call = "case userImage s of
                 Some u \<Rightarrow> editImage ai (Some (data u)) (mimeType u) ?p
               | None \<Rightarrow> generateImageFromText ai ?p"
  obtain r' q where c: "?call = (r', q)"
    by (cases ?call)
  have q: "q = [case userImage s of
                  Some u \<Rightarrow> editImage_request (Some (data u)) (mimeType u) ?p
                | None \<Rightarrow> generateImageFromText_request ?p]"
    using image_call_sent [where img = "userImage s" and ai = ai and p = ?p] c by simp
  show ?thesis
    by (cases r')
      (simp_all add: handleGenerateAll_try_def g' reqs t seoTitle_of_def template_value_def
        c q Let_def)
qed

lemma try_success_text_done:
  "handleGenerateAll_try ai s s1 = (Inr u, s2, sent) \<Longrightarrow> \<not> isTextLoading s2"
  by (auto simp: handleGenerateAll_try_def Let_def
      split: prod.splits sum.splits option.splits)

subsection \<open>The busy flags\<close>

lemma generateAll_flags:
  assumes "trim (videoIdea s) \<noteq> []"
  shows "\<not> isLoading (fst (handleGenerateAll ai s))
    \<and> \<not> isTextLoading (fst (handleGenerateAll ai s))
    \<and> \<not> isThumbnailLoading (fst (handleGenerateAll ai s))"
proof -
  let ?s1 = "s\<lparr>isLoading := True, isTextLoading := True, isThumbnailLoading := True,
                error := [], generatedContent := JNull, thumbnailUrl := [],
                copiedStates := Map.empty\<rparr>"
  obtain r s2 sent where t: "handleGenerateAll_try ai s ?s1 = (r, s2, sent)"
    by (cases "handleGenerateAll_try ai s ?s1")
  show ?thesis
  proof (cases r)
    case (Inl e)
    with assms t show ?thesis
      by (simp add: handleGenerateAll_def Let_def handleError_def)
  next
    case (Inr u)
    with t have "\<not> isTextLoading s2"
      using try_success_text_done by blast
    with assms t Inr show ?thesis
      by (simp add: handleGenerateAll_def Let_def)
  qed
qed

lemma generateAll_flags_blank:
  assumes "trim (videoIdea s) = []"
  shows "isLoading (fst (handleGenerateAll ai s)) = isLoading s
    \<and> isTextLoading (fst (handleGenerateAll ai s)) = isTextLoading s
    \<and> isThumbnailLoading (fst (handleGenerateAll ai s)) = isThumbnailLoading s"
  using assms by (simp add: handleGenerateAll_def)

lemma regenerate_flags:
  "isLoading (fst (handleRegenerateThumbnail ai s)) = isLoading s
   \<and> isTextLoading (fst (handleRegenerateThumbnail ai s)) = isTextLoading s
   \<and> isThumbnailLoading (fst (handleRegenerateThumbnail ai s))
       = (trim (thumbnailPrompt s) = [] \<and> isThumbnailLoading s)"
  by (auto simp: handleRegenerateThumbnail_def Let_def handleError_def
      split: prod.splits sum.splits)

lemma edit_flags:
  "isLoading (fst (handleEditThumbnail ai s)) = isLoading s
   \<and> isTextLoading (fst (handleEditThumbnail ai s)) = isTextLoading s
   \<and> isThumbnailLoading (fst (handleEditThumbnail ai s))
       = ((trim (editPrompt s) = [] \<or> thumbnailUrl s = []) \<and> isThumbnailLoading s)"
  by (auto simp: handleEditThumbnail_def Let_def handleError_def
      split: prod.splits sum.splits)

lemma download_state: "fst (handleDownloadThumbnail now s) = s"
  by (simp add: handleDownloadThumbnail_def Let_def)

text \<open>Between sequential runs no busy flag is set.\<close>

lemma reachable_idle:
  "reachable s \<Longrightarrow> \<not> isLoading s \<and> \<not> isTextLoading s \<and> \<not> isThumbnailLoading s"
proof (induction rule: reachable.induct)
  case reachable_initial
  show ?case by (simp add: initial_state_def)
next
  case (reachable_input s idea img style prompt instruction copied)
  then show ?case by simp
next
  case (reachable_generateAll s ai)
  then show ?case
    using generateAll_flags [of s ai] generateAll_flags_blank [of s ai]
    by (cases "trim (videoIdea s) = []") simp_all
next
  case (reachable_regenerate s ai)
  then show ?case using regenerate_flags [of ai s] by simp
next
  case (reachable_edit s ai)
  then show ?case using edit_flags [of ai s] by simp
next
  case (reachable_download s now)
  then show ?case by (simp add: download_state)
qed

subsection \<open>Decoding the thumbnail URL\<close>

lemma edit_try_decodes:
  assumes url: "thumbnailUrl s = lit ''data:'' @ mime @ lit '';base64,'' @ bytes"
    and mime: "0x2C \<notin> set mime" "0x3A \<notin> set mime" "0x3B \<notin> set mime"
    and bytes: "0x2C \<notin> set bytes"
  shows "handleEditThumbnail_try ai s = editImage ai (Some bytes) mime (editPrompt s)"
proof -
  let ?meta = "lit ''data:'' @ mime @ lit '';base64''"
  have u: "thumbnailUrl s = ?meta @ 0x2C # bytes"
    by (simp add: url lit_def)
  have nm: "0x2C \<notin> set ?meta"
    using mime by (simp add: lit_def)
  have pieces: "js_split 0x2C (thumbnailUrl s) = [?meta, bytes]"
    unfolding u by (simp only: js_split_append [OF nm] js_split_no_separator [OF bytes])
  have m: "?meta = lit ''data'' @ 0x3A # (mime @ lit '';base64'')"
    by (simp add: lit_def)
  have c1: "0x3A \<notin> set (lit ''data'')" and c2: "0x3A \<notin> set (mime @ lit '';base64'')"
    using mime by (simp_all add: lit_def)
  have colon: "js_split 0x3A ?meta = [lit ''data'', mime @ lit '';base64'']"
    unfolding m by (simp only: js_split_append [OF c1] js_split_no_separator [OF c2])
  have t: "mime @ lit '';base64'' = mime @ 0x3B # lit ''base64''"
    by (simp add: lit_def)
  have b: "0x3B \<notin> set (lit ''base64'')"
    by (simp add: lit_def)
  have semi: "js_split 0x3B (mime @ lit '';base64'') = [mime, lit ''base64'']"
    unfolding t by (simp only: js_split_append [OF mime(3)] js_split_no_separator [OF b])
  show ?thesis
    by (simp add: handleEditThumbnail_try_def pieces colon semi Let_def)
qed

lemma edit_run:
  assumes "trim (editPrompt s) \<noteq> []"
    and "thumbnailUrl s = lit ''data:'' @ mime @ lit '';base64,'' @ bytes"
    and "0x2C \<notin> set mime" and "0x3A \<notin> set mime" and "0x3B \<notin> set mime"
    and "0x2C \<notin> set bytes"
  shows "snd (handleEditThumbnail ai s) =
           [(s\<lparr>isThumbnailLoading := True, error := []\<rparr>,
             editImage_request (Some bytes) mime (editPrompt s))]"
    and "fst (editImage ai (Some bytes) mime (editPrompt s)) = Inr url \<Longrightarrow>
         fst (handleEditThumbnail ai s) =
           s\<lparr>isThumbnailLoading := False, error := [], thumbnailUrl := url\<rparr>"
proof -
  have tr: "handleEditThumbnail_try ai s = editImage ai (Some bytes) mime (editPrompt s)"
    using assms(2-6) by (rule edit_try_decodes)
  have ne: "thumbnailUrl s \<noteq> []"
    by (simp add: assms(2) lit_def)
  obtain r q where c: "editImage ai (Some bytes) mime (editPrompt s) = (r, q)"
    by (cases "editImage ai (Some bytes) mime (editPrompt s)")
  have q: "q = [editImage_request (Some bytes) mime (editPrompt s)]"
    using editImage_sent [of ai "Some bytes" mime "editPrompt s"] c by simp
  show "snd (handleEditThumbnail ai s) =
           [(s\<lparr>isThumbnailLoading := True, error := []\<rparr>,
             editImage_request (Some bytes) mime (editPrompt s))]"
    using assms(1) ne by (simp add: handleEditThumbnail_def tr c q Let_def)
  show "fst (handleEditThumbnail ai s) =
           s\<lparr>isThumbnailLoading := False, error := [], thumbnailUrl := url\<rparr>"
    if "fst (editImage ai (Some bytes) mime (editPrompt s)) = Inr url"
    using that assms(1) ne by (simp add: handleEditThumbnail_def tr c Let_def)
qed

lemma download_extension_subtype:
  assumes url: "thumbnailUrl s = lit ''data:'' @ ty @ [0x2F] @ sub @ [0x3B] @ rest"
    and ty: "0x3A \<notin> set ty" "0x3B \<notin> set ty" "0x2F \<notin> set ty"
    and sub: "0x3A \<notin> set sub" "0x3B \<notin> set sub" "0x2F \<notin> set sub" "sub \<noteq> []"
  shows "snd (handleDownloadThumbnail now s) =
     Some \<lparr>href = thumbnailUrl s,
           download = lit ''dekhao-thumbnail-'' @ integer_to_string now @ lit ''.'' @ sub\<rparr>"
proof -
  let ?m = "ty @ 0x2F # sub"
  let ?t = "takeWhile (\<lambda>x. x \<noteq> 0x3A) (ty @ 0x2F # sub @ 0x3B # rest)"
  have u: "thumbnailUrl s = lit ''data'' @ 0x3A # (ty @ 0x2F # sub @ 0x3B # rest)"
    by (simp add: url lit_def)
  have d: "0x3A \<notin> set (lit ''data'')"
    by (simp add: lit_def)
  have colon: "index (js_split 0x3A (thumbnailUrl s)) (Suc 0) = Some ?t"
    unfolding u by (simp add: js_split_append [OF d] index_js_split_0)
  have t: "?t = ty @ 0x2F # sub @ 0x3B # takeWhile (\<lambda>x. x \<noteq> 0x3A) rest"
    using ty(1) sub(1) by (simp add: takeWhile_neq_append)
  have semi: "index (js_split 0x3B ?t) 0 = Some ?m"
    unfolding index_js_split_0 t using ty(2) sub(2) by (simp add: takeWhile_neq_append)
  have slash: "js_split 0x2F ?m = [ty, sub]"
    by (simp only: js_split_append [OF ty(3)] js_split_no_separator [OF sub(3)])
  have ne: "thumbnailUrl s \<noteq> []"
    by (simp add: url lit_def)
  show ?thesis
    using ne sub(4) by (simp add: handleDownloadThumbnail_def Let_def colon semi slash)
qed

lemma download_extension_no_subtype:
  assumes url: "thumbnailUrl s = lit ''data:'' @ m @ [0x3B] @ rest"
    and m: "0x3A \<notin> set m" "0x3B \<notin> set m" "0x2F \<notin> set m"
  shows "snd (handleDownloadThumbnail now s) =
     Some \<lparr>href = thumbnailUrl s,
           download = lit ''dekhao-thumbnail-'' @ integer_to_string now @ lit ''.jpeg''\<rparr>"
proof -
  let ?t = "takeWhile (\<lambda>x. x \<noteq> 0x3A) (m @ 0x3B # rest)"
  have u: "thumbnailUrl s = lit ''data'' @ 0x3A # (m @ 0x3B # rest)"
    by (simp add: url lit_def)
  have d: "0x3A \<notin> set (lit ''data'')"
    by (simp add: lit_def)
  have colon: "index (js_split 0x3A (thumbnailUrl s)) (Suc 0) = Some ?t"
    unfolding u by (simp add: js_split_append [OF d] index_js_split_0)
  have t: "?t = m @ 0x3B # takeWhile (\<lambda>x. x \<noteq> 0x3A) rest"
    using m(1) by (simp add: takeWhile_neq_append)
  have semi: "index (js_split 0x3B ?t) 0 = Some m"
    unfolding index_js_split_0 t using m(2) by (simp add: takeWhile_neq_append)
  have slash: "js_split 0x2F m = [m]"
    by (rule js_split_no_separator [OF m(3)])
  have ne: "thumbnailUrl s \<noteq> []"
    by (simp add: url lit_def)
  show ?thesis
    using ne by (simp add: handleDownloadThumbnail_def Let_def colon semi slash lit_def)
qed

lemma download_extension_default:
  assumes "thumbnailUrl s \<noteq> []" and "0x3A \<notin> set (thumbnailUrl s)"
  shows "snd (handleDownloadThumbnail now s) =
     Some \<lparr>href = thumbnailUrl s,
           download = lit ''dekhao-thumbnail-'' @ integer_to_string now @ lit ''.jpeg''\<rparr>"
  using assms
  by (simp add: handleDownloadThumbnail_def Let_def js_split_no_separator lit_def)

subsection \<open>Evaluation on the concrete inputs\<close>

lemma JSON_parse_empty_object: "JSON_parse (trim (lit ''{}'')) = Some (JObject [])"
  by (simp add: JSON_parse_def trim_def lit_def is_white_space_def is_json_ws_def cons_opt_def)

lemma camera_idea_not_blank: "trim (videoIdea camera_state) \<noteq> []"
  by (simp add: camera_state_def initial_state_def trim_def lit_def is_white_space_def)

lemma demo_json_parsed:
  "JSON_parse (trim demo_json) =
     Some (JObject [(lit ''seoTitle'', JString (lit ''Camera Unboxing'')),
                    (lit ''description'', JString (lit ''A first look.''))])"
  by (simp add: demo_json_def quoted_def JSON_parse_def trim_def lit_def is_white_space_def
      is_json_ws_def cons_opt_def cons_fst_def is_number_char_def is_digit_def)

lemma demo_text_content:
  "fst (generateTextContent demo_env t) =
     Inr (JObject [(lit ''seoTitle'', JString (lit ''Camera Unboxing'')),
                   (lit ''description'', JString (lit ''A first look.''))])"
  by (simp add: generateTextContent_def generateTextContent_try_def
      generateTextContent_request_def demo_env_def Let_def demo_json_parsed)

lemma demo_properties:
  "get_property [(lit ''seoTitle'', JString (lit ''Camera Unboxing'')),
                 (lit ''description'', JString (lit ''A first look.''))] (lit ''seoTitle'')
     = Some (JString (lit ''Camera Unboxing''))"
  "get_property [(lit ''seoTitle'', JString (lit ''Camera Unboxing'')),
                 (lit ''description'', JString (lit ''A first look.''))] (lit ''description'')
     = Some (JString (lit ''A first look.''))"
  by (simp_all add: get_property_def lit_def)

lemma failing_text_content:
  "fst (generateTextContent failing_env t)
     = Inl (Error (lit ''Failed to generate video details from AI.''))"
  by (simp add: generateTextContent_def generateTextContent_try_def failing_env_def Let_def)

lemma camera_state_reachable: "reachable camera_state"
proof -
  have eq: "camera_state =
      initial_state\<lparr>videoIdea := lit ''Unboxing a new camera'', userImage := None,
        thumbnailStyle := lit ''Cinematic'', thumbnailPrompt := lit ''A red camera on a desk'',
        editPrompt := [], copiedStates := Map.empty\<rparr>"
    by (simp add: camera_state_def initial_state_def)
  show ?thesis
    unfolding eq by (rule reachable_input [OF reachable_initial])
qed

lemma refined_state_reachable: "reachable refined_state"
  unfolding refined_state_def
  by (rule reachable_input, rule reachable_generateAll, rule camera_state_reachable)

lemma thumbnail_state_fields:
  "editPrompt thumbnail_state = lit ''add a lightning bolt''"
  "thumbnailUrl thumbnail_state = lit ''data:'' @ lit ''image/png'' @ lit '';base64,'' @ lit ''QUJD''"
  "thumbnailPrompt thumbnail_state = lit ''A red camera on a desk''"
  "userImage thumbnail_state
     = Some \<lparr>data = lit ''VVNFUg=='', mimeType = lit ''image/jpeg'', name = lit ''me.jpg''\<rparr>"
  by (simp_all add: thumbnail_state_def initial_state_def lit_def)

lemma thumbnail_state_wf:
  "trim (editPrompt thumbnail_state) \<noteq> []"
  "0x2C \<notin> set (lit ''image/png'')" "0x3A \<notin> set (lit ''image/png'')"
  "0x3B \<notin> set (lit ''image/png'')" "0x2C \<notin> set (lit ''QUJD'')"
  by (simp_all add: thumbnail_state_fields(1) trim_def lit_def is_white_space_def)

lemma demo_edit:
  "fst (editImage demo_env d m p) = Inr (lit ''data:'' @ lit ''image/png'' @ lit '';base64,'' @ lit ''QUJD'')"
  by (simp add: editImage_def editImage_try_def editImage_request_def demo_env_def Let_def
      template_str_def)

lemma timestamp_digits: "integer_to_string 1700000000000 = lit ''1700000000000''"
  by (simp add: integer_to_string_def decimal_digits.simps lit_def)


section \<open>The claims\<close>

subsection \<open>C1: the two failure causes of editImage\<close>

text \<open>
  C1 says that when no part of the provider's response carries image data, editImage
  fails with the message "The AI did not return an image. It may have refused the
  request.", while a transport or provider error yields "Failed to edit image with AI.".
  The source throws the first message inside the \<open>try\<close> block whose \<open>catch\<close> clause
  replaces every thrown value: on a response holding a single text part the caller
  receives "Failed to edit image with AI.", the message it receives when the provider
  rejects the request.
\<close>

theorem editImage_refusal_message:
  "fst (editImage refusing_env (Some (lit ''QUJD'')) (lit ''image/png'') (lit ''make it blue''))
     = Inl (Error (lit ''Failed to edit image with AI.''))
   \<and> fst (editImage failing_env (Some (lit ''QUJD'')) (lit ''image/png'') (lit ''make it blue''))
     = Inl (Error (lit ''Failed to edit image with AI.''))"
  by (simp add: editImage_def editImage_try_def refusing_env_def failing_env_def)

subsection \<open>C2: when generateTextContent fails\<close>

text \<open>
  C2, as amended: generateTextContent fails with the message "Failed to generate video
  details from AI." exactly when the provider call is rejected, the response has no
  text, or the trimmed text is not valid JSON, and it fails with no other message; it
  succeeds with the value \<open>v\<close> exactly when the provider resolves with a text whose
  trimmed form parses to \<open>v\<close>. The parsed value is returned whatever its shape.
\<close>

theorem generateTextContent_outcome:
  "(fst (generateTextContent ai title)
      = Inl (Error (lit ''Failed to generate video details from AI.''))
      \<longleftrightarrow> (\<exists>e. generateContent ai (generateTextContent_request title) = Rejected e)
        \<or> (\<exists>response. generateContent ai (generateTextContent_request title) = Resolved response
              \<and> (response_text response = None
                 \<or> (\<exists>t. response_text response = Some t \<and> JSON_parse (trim t) = None))))
   \<and> (\<forall>v. fst (generateTextContent ai title) = Inr v
      \<longleftrightarrow> (\<exists>response t. generateContent ai (generateTextContent_request title) = Resolved response
              \<and> response_text response = Some t \<and> JSON_parse (trim t) = Some v))
   \<and> (\<forall>e. fst (generateTextContent ai title) = Inl e
      \<longleftrightarrow> e = Error (lit ''Failed to generate video details from AI.'')
          \<and> (\<forall>v. fst (generateTextContent ai title) \<noteq> Inr v))"
  by (auto simp: generateTextContent_def generateTextContent_try_def Let_def
      split: promise.splits option.splits sum.splits)

text \<open>
  The claim as stated fails: when the provider answers with the text \<open>{}\<close>, the
  function succeeds and returns an object that has neither field.
\<close>

theorem generateTextContent_unchecked_shape:
  "fst (generateTextContent (text_env (lit ''{}'')) (lit ''Unboxing a new camera''))
     = Inr (JObject [])
   \<and> \<not> spec_expected_shape (JObject [])"
  by (simp add: generateTextContent_def generateTextContent_try_def text_env_def Let_def
      JSON_parse_empty_object spec_expected_shape_def get_property_def)

subsection \<open>C3: GenerateAll with a blank idea\<close>

text \<open>
  C3: when the idea is empty after trimming, handleGenerateAll sets the validation
  message, sends no request, and changes no other field of the state.
\<close>

theorem generateAll_blank_idea:
  "trim (videoIdea s) = [] \<Longrightarrow>
   handleGenerateAll ai s = (s\<lparr>error := lit ''Please enter a video idea first.''\<rparr>, [])"
  by (simp add: handleGenerateAll_def)


text \<open>An idea of three spaces.\<close>

theorem generateAll_blank_idea_witness:
  "trim (videoIdea blank_idea_state) = []
   \<and> handleGenerateAll demo_env blank_idea_state
       = (blank_idea_state\<lparr>error := lit ''Please enter a video idea first.''\<rparr>, [])"
proof -
  have h: "trim (videoIdea blank_idea_state) = []"
    by (simp add: blank_idea_state_def initial_state_def trim_def lit_def is_white_space_def)
  show ?thesis
    using h generateAll_blank_idea [OF h, of demo_env] by simp
qed

subsection \<open>C4: the thumbnail prompt of GenerateAll\<close>

text \<open>
  C4: when the text call succeeds with an object whose \<open>seoTitle\<close> is a string
  (whatever its \<open>description\<close>), the stored thumbnail prompt contains the returned
  title and the instruction "Do NOT include any text"; two requests are sent, the text
  request first; the second is the edit request when a source image is present and the
  image request otherwise, and it carries the stored prompt. When the text request is sent
  the state still holds the old prompt and no generated content; when the image request
  is sent it holds the new prompt and the returned content.
\<close>

theorem generateAll_prompt:
  assumes "trim (videoIdea s) \<noteq> []"
    and "fst (generateTextContent ai (videoIdea s)) = Inr (JObject ms)"
    and "get_property ms (lit ''seoTitle'') = Some (JString seoTitle)"
  shows "sublist seoTitle (thumbnailPrompt (fst (handleGenerateAll ai s)))
    \<and> sublist (lit ''Do NOT include any text'') (thumbnailPrompt (fst (handleGenerateAll ai s)))
    \<and> map snd (snd (handleGenerateAll ai s)) =
        [generateTextContent_request (videoIdea s),
         case userImage s of
           Some u \<Rightarrow> editImage_request (Some (data u)) (mimeType u)
                       (thumbnailPrompt (fst (handleGenerateAll ai s)))
         | None \<Rightarrow> generateImageFromText_request
                       (thumbnailPrompt (fst (handleGenerateAll ai s)))]
    \<and> map (thumbnailPrompt \<circ> fst) (snd (handleGenerateAll ai s)) =
        [thumbnailPrompt s, thumbnailPrompt (fst (handleGenerateAll ai s))]
    \<and> map (generatedContent \<circ> fst) (snd (handleGenerateAll ai s)) = [JNull, JObject ms]"
proof -
  let ?s1 = "s\<lparr>isLoading := True, isTextLoading := True, isThumbnailLoading := True,
                error := [], generatedContent := JNull, thumbnailUrl := [],
                copiedStates := Map.empty\<rparr>"
  let ?p = "finalThumbnailPrompt (userImage s) seoTitle (thumbnailStyle s)"
  obtain r s4 where tr:
    "handleGenerateAll_try ai s ?s1 =
       (r, s4,
        [(?s1, generateTextContent_request (videoIdea s)),
         (?s1\<lparr>generatedContent := JObject ms, isTextLoading := False, thumbnailPrompt := ?p\<rparr>,
          case userImage s of
            Some u \<Rightarrow> editImage_request (Some (data u)) (mimeType u) ?p
          | None \<Rightarrow> generateImageFromText_request ?p)])"
    and p4: "thumbnailPrompt s4 = ?p"
    using try_text_success [OF assms(2,3), of ?s1] by blast
  have final: "thumbnailPrompt (fst (handleGenerateAll ai s)) = ?p"
    using assms(1) tr p4
    by (cases r) (simp_all add: handleGenerateAll_def Let_def handleError_def)
  have sent: "snd (handleGenerateAll ai s) =
        [(?s1, generateTextContent_request (videoIdea s)),
         (?s1\<lparr>generatedContent := JObject ms, isTextLoading := False, thumbnailPrompt := ?p\<rparr>,
          case userImage s of
            Some u \<Rightarrow> editImage_request (Some (data u)) (mimeType u) ?p
          | None \<Rightarrow> generateImageFromText_request ?p)]"
    using assms(1) tr
    by (simp add: handleGenerateAll_def Let_def)
  show ?thesis
    unfolding final sent
    by (simp add: sublist_finalThumbnailPrompt_title sublist_finalThumbnailPrompt_style)
qed


text \<open>
  The idea "Unboxing a new camera", no source image, and a provider that answers with
  the title "Camera Unboxing".
\<close>

theorem generateAll_prompt_witness:
  "trim (videoIdea camera_state) \<noteq> []
   \<and> fst (generateTextContent demo_env (videoIdea camera_state))
       = Inr (JObject [(lit ''seoTitle'', JString (lit ''Camera Unboxing'')),
                       (lit ''description'', JString (lit ''A first look.''))])
   \<and> sublist (lit ''Camera Unboxing'') (thumbnailPrompt (fst (handleGenerateAll demo_env camera_state)))
   \<and> sublist (lit ''Do NOT include any text'')
        (thumbnailPrompt (fst (handleGenerateAll demo_env camera_state)))
   \<and> map snd (snd (handleGenerateAll demo_env camera_state)) =
        [generateTextContent_request (lit ''Unboxing a new camera''),
         generateImageFromText_request (thumbnailPrompt (fst (handleGenerateAll demo_env camera_state)))]
   \<and> map (thumbnailPrompt \<circ> fst) (snd (handleGenerateAll demo_env camera_state)) =
        [lit ''A red camera on a desk'', thumbnailPrompt (fst (handleGenerateAll demo_env camera_state))]"
proof -
  have u: "userImage camera_state = None" "videoIdea camera_state = lit ''Unboxing a new camera''"
    "thumbnailPrompt camera_state = lit ''A red camera on a desk''"
    by (simp_all add: camera_state_def initial_state_def)
  show ?thesis
    using generateAll_prompt [OF camera_idea_not_blank demo_text_content demo_properties(1)]
      camera_idea_not_blank demo_text_content [of "videoIdea camera_state"]
    by (simp add: u)
qed

subsection \<open>C5: GenerateAll when the text call throws\<close>

text \<open>
  C5: when generateTextContent throws, the error is the fixed text-generation message,
  the only request sent is the text request (no image call is made), the thumbnail is
  unset, and the three busy flags are false when the handler completes.
\<close>

theorem generateAll_text_failure:
  assumes "trim (videoIdea s) \<noteq> []"
    and "fst (generateTextContent ai (videoIdea s)) = Inl e"
  shows "error (fst (handleGenerateAll ai s)) = lit ''Failed to generate video details from AI.''
    \<and> map snd (snd (handleGenerateAll ai s)) = [generateTextContent_request (videoIdea s)]
    \<and> thumbnailUrl (fst (handleGenerateAll ai s)) = []
    \<and> \<not> isTextLoading (fst (handleGenerateAll ai s))
    \<and> \<not> isThumbnailLoading (fst (handleGenerateAll ai s))
    \<and> \<not> isLoading (fst (handleGenerateAll ai s))"
  using assms(1) try_text_failure [OF assms(2)]
  by (simp add: handleGenerateAll_def Let_def handleError_def)


text \<open>The idea "Unboxing a new camera" and a provider that rejects every request.\<close>

theorem generateAll_text_failure_witness:
  "trim (videoIdea camera_state) \<noteq> []
   \<and> fst (generateTextContent failing_env (videoIdea camera_state))
       = Inl (Error (lit ''Failed to generate video details from AI.''))
   \<and> error (fst (handleGenerateAll failing_env camera_state))
       = lit ''Failed to generate video details from AI.''
   \<and> map snd (snd (handleGenerateAll failing_env camera_state))
       = [generateTextContent_request (videoIdea camera_state)]
   \<and> thumbnailUrl (fst (handleGenerateAll failing_env camera_state)) = []
   \<and> \<not> isTextLoading (fst (handleGenerateAll failing_env camera_state))
   \<and> \<not> isThumbnailLoading (fst (handleGenerateAll failing_env camera_state))
   \<and> \<not> isLoading (fst (handleGenerateAll failing_env camera_state))"
  using generateAll_text_failure [OF camera_idea_not_blank failing_text_content]
    camera_idea_not_blank failing_text_content [of "videoIdea camera_state"]
  by simp

subsection \<open>C6: the busy flags after every run\<close>

text \<open>
  C6: from every state the component can be in between sequential runs, and whatever
  the provider does, handleGenerateAll ends with the thumbnail, overall and text busy
  flags false, and handleRegenerateThumbnail and handleEditThumbnail end with the
  thumbnail busy flag false. Moreover, from any state at all (busy flags set or not), a
  run that passes its validation ends with these flags false: the state reset after
  the \<open>try\<close> block is reached whatever the steps do. (A run that validation rejects
  returns before the flags are raised and leaves them as they were, which between
  sequential runs is false.)
\<close>

theorem busy_flags_cleared:
  "(reachable s \<longrightarrow>
      \<not> isThumbnailLoading (fst (handleGenerateAll ai s))
      \<and> \<not> isLoading (fst (handleGenerateAll ai s))
      \<and> \<not> isTextLoading (fst (handleGenerateAll ai s))
      \<and> \<not> isThumbnailLoading (fst (handleRegenerateThumbnail ai s))
      \<and> \<not> isThumbnailLoading (fst (handleEditThumbnail ai s)))
   \<and> (trim (videoIdea s) \<noteq> [] \<longrightarrow>
      \<not> isThumbnailLoading (fst (handleGenerateAll ai s))
      \<and> \<not> isLoading (fst (handleGenerateAll ai s))
      \<and> \<not> isTextLoading (fst (handleGenerateAll ai s)))
   \<and> (trim (thumbnailPrompt s) \<noteq> [] \<longrightarrow>
      \<not> isThumbnailLoading (fst (handleRegenerateThumbnail ai s)))
   \<and> (trim (editPrompt s) \<noteq> [] \<and> thumbnailUrl s \<noteq> [] \<longrightarrow>
      \<not> isThumbnailLoading (fst (handleEditThumbnail ai s)))"
proof (intro conjI impI)
  assume s: "reachable s"
  have g: "reachable (fst (handleGenerateAll ai s))"
    using s by (rule reachable_generateAll)
  have r: "reachable (fst (handleRegenerateThumbnail ai s))"
    using s by (rule reachable_regenerate)
  have e: "reachable (fst (handleEditThumbnail ai s))"
    using s by (rule reachable_edit)
  from reachable_idle [OF g]
  show "\<not> isThumbnailLoading (fst (handleGenerateAll ai s))"
    and "\<not> isLoading (fst (handleGenerateAll ai s))"
    and "\<not> isTextLoading (fst (handleGenerateAll ai s))"
    by simp_all
  from reachable_idle [OF r]
  show "\<not> isThumbnailLoading (fst (handleRegenerateThumbnail ai s))"
    by simp
  from reachable_idle [OF e]
  show "\<not> isThumbnailLoading (fst (handleEditThumbnail ai s))"
    by simp
next
  assume v: "trim (videoIdea s) \<noteq> []"
  from generateAll_flags [OF v, of ai]
  show "\<not> isThumbnailLoading (fst (handleGenerateAll ai s))"
    and "\<not> isLoading (fst (handleGenerateAll ai s))"
    and "\<not> isTextLoading (fst (handleGenerateAll ai s))"
    by simp_all
next
  assume "trim (thumbnailPrompt s) \<noteq> []"
  then show "\<not> isThumbnailLoading (fst (handleRegenerateThumbnail ai s))"
    using regenerate_flags [of ai s] by simp
next
  assume "trim (editPrompt s) \<noteq> [] \<and> thumbnailUrl s \<noteq> []"
  then show "\<not> isThumbnailLoading (fst (handleEditThumbnail ai s))"
    using edit_flags [of ai s] by simp
qed

text \<open>
  The state reached by a successful GenerateAll followed by typing a prompt and an
  instruction; and a state with the three flags set, on which every validation passes
  and every provider call fails.
\<close>

theorem busy_flags_cleared_witness:
  "reachable refined_state
   \<and> \<not> isThumbnailLoading (fst (handleGenerateAll demo_env refined_state))
   \<and> \<not> isLoading (fst (handleGenerateAll demo_env refined_state))
   \<and> \<not> isTextLoading (fst (handleGenerateAll demo_env refined_state))
   \<and> \<not> isThumbnailLoading (fst (handleRegenerateThumbnail demo_env refined_state))
   \<and> \<not> isThumbnailLoading (fst (handleEditThumbnail demo_env refined_state))
   \<and> isThumbnailLoading busy_state \<and> isLoading busy_state \<and> isTextLoading busy_state
   \<and> trim (videoIdea busy_state) \<noteq> []
   \<and> trim (thumbnailPrompt busy_state) \<noteq> []
   \<and> trim (editPrompt busy_state) \<noteq> [] \<and> thumbnailUrl busy_state \<noteq> []
   \<and> \<not> isThumbnailLoading (fst (handleGenerateAll failing_env busy_state))
   \<and> \<not> isLoading (fst (handleGenerateAll failing_env busy_state))
   \<and> \<not> isTextLoading (fst (handleGenerateAll failing_env busy_state))
   \<and> \<not> isThumbnailLoading (fst (handleRegenerateThumbnail failing_env busy_state))
   \<and> \<not> isThumbnailLoading (fst (handleEditThumbnail failing_env busy_state))"
proof -
  have b: "isThumbnailLoading busy_state" "isLoading busy_state" "isTextLoading busy_state"
    "trim (videoIdea busy_state) \<noteq> []" "trim (thumbnailPrompt busy_state) \<noteq> []"
    "trim (editPrompt busy_state) \<noteq> []" "thumbnailUrl busy_state \<noteq> []"
    by (simp_all add: busy_state_def thumbnail_state_def initial_state_def trim_def lit_def
        is_white_space_def)
  show ?thesis
    using refined_state_reachable b
      busy_flags_cleared [of refined_state demo_env]
      busy_flags_cleared [of busy_state failing_env]
    by blast
qed

subsection \<open>C7: EditThumbnail edits the current thumbnail\<close>

text \<open>
  C7: when the edit instruction is not blank and the thumbnail is the data URL of a
  mime type and base64 bytes (the mime type without comma, colon or semicolon, the
  bytes without comma), handleEditThumbnail sends one request, the edit request built
  from exactly that mime type, those bytes and the instruction, whatever the uploaded
  source image is; when editImage succeeds the thumbnail becomes the returned URL, the
  error is cleared, the thumbnail busy flag is false and no other field changes; and a
  second run then sends the mime type and bytes of the URL the first run returned.
\<close>

theorem editThumbnail_current_thumbnail:
  assumes "trim (editPrompt s) \<noteq> []"
    and "thumbnailUrl s = lit ''data:'' @ mime @ lit '';base64,'' @ bytes"
    and "0x2C \<notin> set mime" and "0x3A \<notin> set mime" and "0x3B \<notin> set mime"
    and "0x2C \<notin> set bytes"
  shows "snd (handleEditThumbnail ai s) =
           [(s\<lparr>isThumbnailLoading := True, error := []\<rparr>,
             editImage_request (Some bytes) mime (editPrompt s))]
    \<and> (\<forall>url. fst (editImage ai (Some bytes) mime (editPrompt s)) = Inr url \<longrightarrow>
          fst (handleEditThumbnail ai s) =
            s\<lparr>isThumbnailLoading := False, error := [], thumbnailUrl := url\<rparr>)
    \<and> (\<forall>mime' bytes'.
          fst (editImage ai (Some bytes) mime (editPrompt s))
            = Inr (lit ''data:'' @ mime' @ lit '';base64,'' @ bytes')
          \<and> 0x2C \<notin> set mime' \<and> 0x3A \<notin> set mime' \<and> 0x3B \<notin> set mime'
          \<and> 0x2C \<notin> set bytes' \<longrightarrow>
          map snd (snd (handleEditThumbnail ai' (fst (handleEditThumbnail ai s))))
            = [editImage_request (Some bytes') mime' (editPrompt s)])"
proof (intro conjI allI impI)
  show "snd (handleEditThumbnail ai s) =
           [(s\<lparr>isThumbnailLoading := True, error := []\<rparr>,
             editImage_request (Some bytes) mime (editPrompt s))]"
    using assms by (rule edit_run(1))
next
  fix url
  assume "fst (editImage ai (Some bytes) mime (editPrompt s)) = Inr url"
  with assms show "fst (handleEditThumbnail ai s) =
            s\<lparr>isThumbnailLoading := False, error := [], thumbnailUrl := url\<rparr>"
    by (rule edit_run(2))
next
  fix mime' bytes'
  assume a: "fst (editImage ai (Some bytes) mime (editPrompt s))
            = Inr (lit ''data:'' @ mime' @ lit '';base64,'' @ bytes')
          \<and> 0x2C \<notin> set mime' \<and> 0x3A \<notin> set mime' \<and> 0x3B \<notin> set mime'
          \<and> 0x2C \<notin> set bytes'"
  let ?s' = "fst (handleEditThumbnail ai s)"
  have s': "?s' = s\<lparr>isThumbnailLoading := False, error := [],
                     thumbnailUrl := lit ''data:'' @ mime' @ lit '';base64,'' @ bytes'\<rparr>"
    using assms a edit_run(2) by blast
  have "snd (handleEditThumbnail ai' ?s') =
           [(?s'\<lparr>isThumbnailLoading := True, error := []\<rparr>,
             editImage_request (Some bytes') mime' (editPrompt ?s'))]"
    using assms(1) a by (intro edit_run(1)) (simp_all add: s')
  then show "map snd (snd (handleEditThumbnail ai' ?s'))
            = [editImage_request (Some bytes') mime' (editPrompt s)]"
    by (simp add: s')
qed


text \<open>
  A PNG thumbnail, an uploaded JPEG source image and the instruction "add a lightning
  bolt": the request carries the PNG, and so does the request of a second run.
\<close>

theorem editThumbnail_current_thumbnail_witness:
  "trim (editPrompt thumbnail_state) \<noteq> []
   \<and> thumbnailUrl thumbnail_state = lit ''data:'' @ lit ''image/png'' @ lit '';base64,'' @ lit ''QUJD''
   \<and> 0x2C \<notin> set (lit ''image/png'') \<and> 0x3A \<notin> set (lit ''image/png'')
   \<and> 0x3B \<notin> set (lit ''image/png'') \<and> 0x2C \<notin> set (lit ''QUJD'')
   \<and> snd (handleEditThumbnail demo_env thumbnail_state) =
        [(thumbnail_state\<lparr>isThumbnailLoading := True, error := []\<rparr>,
          editImage_request (Some (lit ''QUJD'')) (lit ''image/png'') (lit ''add a lightning bolt''))]
   \<and> fst (handleEditThumbnail demo_env thumbnail_state) =
        thumbnail_state\<lparr>isThumbnailLoading := False, error := [],
          thumbnailUrl := lit ''data:'' @ lit ''image/png'' @ lit '';base64,'' @ lit ''QUJD''\<rparr>
   \<and> map snd (snd (handleEditThumbnail failing_env (fst (handleEditThumbnail demo_env thumbnail_state))))
        = [editImage_request (Some (lit ''QUJD'')) (lit ''image/png'') (lit ''add a lightning bolt'')]"
proof -
  note t = editThumbnail_current_thumbnail
    [OF thumbnail_state_wf(1) thumbnail_state_fields(2) thumbnail_state_wf(2-5),
     of demo_env failing_env]
  have e: "fst (editImage demo_env (Some (lit ''QUJD'')) (lit ''image/png'')
                 (editPrompt thumbnail_state))
             = Inr (lit ''data:'' @ lit ''image/png'' @ lit '';base64,'' @ lit ''QUJD'')"
    by (rule demo_edit)
  from t e thumbnail_state_wf thumbnail_state_fields(2) show ?thesis
    unfolding thumbnail_state_fields(1) by blast
qed

subsection \<open>C8: RegenerateThumbnail\<close>

text \<open>
  C8: with a thumbnail prompt that is empty after trimming, handleRegenerateThumbnail
  sets the validation message, sends no request and changes nothing else. Otherwise it
  sends one request, at a moment when the thumbnail busy flag is true and the error and
  the quick-edit instruction are cleared: the edit request with the uploaded source
  image when one is present, else the image request, carrying the current thumbnail
  prompt.
\<close>

theorem regenerateThumbnail_run:
  "(trim (thumbnailPrompt s) = [] \<longrightarrow>
      handleRegenerateThumbnail ai s
        = (s\<lparr>error := lit ''Thumbnail prompt cannot be empty.''\<rparr>, []))
   \<and> (trim (thumbnailPrompt s) \<noteq> [] \<longrightarrow>
      snd (handleRegenerateThumbnail ai s)
        = [(s\<lparr>isThumbnailLoading := True, error := [], editPrompt := []\<rparr>,
            case userImage s of
              Some u \<Rightarrow> editImage_request (Some (data u)) (mimeType u) (thumbnailPrompt s)
            | None \<Rightarrow> generateImageFromText_request (thumbnailPrompt s))])"
proof (intro conjI impI)
  assume "trim (thumbnailPrompt s) = []"
  then show "handleRegenerateThumbnail ai s
        = (s\<lparr>error := lit ''Thumbnail prompt cannot be empty.''\<rparr>, [])"
    by (simp add: handleRegenerateThumbnail_def)
next
  assume ne: "trim (thumbnailPrompt s) \<noteq> []"
  let ?call = "case userImage s of
                 Some u \<Rightarrow> editImage ai (Some (data u)) (mimeType u) (thumbnailPrompt s)
               | None \<Rightarrow> generateImageFromText ai (thumbnailPrompt s)"
  obtain r q where c: "?call = (r, q)"
    by (cases ?call)
  have q: "q = [case userImage s of
              Some u \<Rightarrow> editImage_request (Some (data u)) (mimeType u) (thumbnailPrompt s)
            | None \<Rightarrow> generateImageFromText_request (thumbnailPrompt s)]"
    using image_call_sent [where img = "userImage s" and ai = ai and p = "thumbnailPrompt s"] c
    by simp
  show "snd (handleRegenerateThumbnail ai s)
        = [(s\<lparr>isThumbnailLoading := True, error := [], editPrompt := []\<rparr>,
            case userImage s of
              Some u \<Rightarrow> editImage_request (Some (data u)) (mimeType u) (thumbnailPrompt s)
            | None \<Rightarrow> generateImageFromText_request (thumbnailPrompt s))]"
    using ne by (simp add: handleRegenerateThumbnail_def c q Let_def)
qed


text \<open>
  The initial state (empty prompt), a state with an uploaded source image, and a state
  without one.
\<close>

theorem regenerateThumbnail_run_witness:
  "trim (thumbnailPrompt initial_state) = []
   \<and> handleRegenerateThumbnail demo_env initial_state
       = (initial_state\<lparr>error := lit ''Thumbnail prompt cannot be empty.''\<rparr>, [])
   \<and> trim (thumbnailPrompt thumbnail_state) \<noteq> []
   \<and> snd (handleRegenerateThumbnail demo_env thumbnail_state)
       = [(thumbnail_state\<lparr>isThumbnailLoading := True, error := [], editPrompt := []\<rparr>,
           editImage_request (Some (lit ''VVNFUg=='')) (lit ''image/jpeg'')
             (lit ''A red camera on a desk''))]
   \<and> trim (thumbnailPrompt camera_state) \<noteq> []
   \<and> snd (handleRegenerateThumbnail demo_env camera_state)
       = [(camera_state\<lparr>isThumbnailLoading := True, error := [], editPrompt := []\<rparr>,
           generateImageFromText_request (lit ''A red camera on a desk''))]"
proof -
  have a: "trim (thumbnailPrompt initial_state) = []"
    by (simp add: initial_state_def trim_def)
  have b: "trim (thumbnailPrompt thumbnail_state) \<noteq> []"
    by (simp add: thumbnail_state_fields(3) trim_def lit_def is_white_space_def)
  have c: "trim (thumbnailPrompt camera_state) \<noteq> []"
    by (simp add: camera_state_def initial_state_def trim_def lit_def is_white_space_def)
  have d: "userImage camera_state = None" "thumbnailPrompt camera_state = lit ''A red camera on a desk''"
    by (simp_all add: camera_state_def initial_state_def)
  show ?thesis
    using a b c regenerateThumbnail_run [of initial_state demo_env]
      regenerateThumbnail_run [of thumbnail_state demo_env]
      regenerateThumbnail_run [of camera_state demo_env]
    by (simp add: thumbnail_state_fields(3,4) d)
qed

subsection \<open>C9: the file name of DownloadThumbnail\<close>

text \<open>
  C9: handleDownloadThumbnail never changes the state. Without a thumbnail it does
  nothing. For a thumbnail that is the data URL of a mime type \<open>ty/sub\<close> it clicks an
  anchor whose file name is \<open>dekhao-thumbnail-\<close>, the time stamp in decimal, a dot and
  the subtype \<open>sub\<close>; for a thumbnail whose mime type has no subtype (no slash in
  it), and for one from which no mime type can be read at all (no colon in it), the
  extension is \<open>jpeg\<close>.
\<close>

theorem downloadThumbnail_filename:
  "fst (handleDownloadThumbnail now s) = s
   \<and> (thumbnailUrl s = [] \<longrightarrow> snd (handleDownloadThumbnail now s) = None)
   \<and> (thumbnailUrl s = lit ''data:'' @ ty @ [0x2F] @ sub @ [0x3B] @ rest
        \<and> 0x3A \<notin> set ty \<and> 0x3B \<notin> set ty \<and> 0x2F \<notin> set ty
        \<and> 0x3A \<notin> set sub \<and> 0x3B \<notin> set sub \<and> 0x2F \<notin> set sub \<and> sub \<noteq> [] \<longrightarrow>
      snd (handleDownloadThumbnail now s) =
        Some \<lparr>href = thumbnailUrl s,
              download = lit ''dekhao-thumbnail-'' @ integer_to_string now @ lit ''.'' @ sub\<rparr>)
   \<and> (thumbnailUrl s = lit ''data:'' @ m @ [0x3B] @ rest'
        \<and> 0x3A \<notin> set m \<and> 0x3B \<notin> set m \<and> 0x2F \<notin> set m \<longrightarrow>
      snd (handleDownloadThumbnail now s) =
        Some \<lparr>href = thumbnailUrl s,
              download = lit ''dekhao-thumbnail-'' @ integer_to_string now @ lit ''.jpeg''\<rparr>)
   \<and> (thumbnailUrl s \<noteq> [] \<and> 0x3A \<notin> set (thumbnailUrl s) \<longrightarrow>
      snd (handleDownloadThumbnail now s) =
        Some \<lparr>href = thumbnailUrl s,
              download = lit ''dekhao-thumbnail-'' @ integer_to_string now @ lit ''.jpeg''\<rparr>)"
proof (intro conjI impI)
  show "fst (handleDownloadThumbnail now s) = s"
    by (rule download_state)
next
  assume "thumbnailUrl s = []"
  then show "snd (handleDownloadThumbnail now s) = None"
    by (simp add: handleDownloadThumbnail_def)
next
  assume "thumbnailUrl s = lit ''data:'' @ ty @ [0x2F] @ sub @ [0x3B] @ rest
        \<and> 0x3A \<notin> set ty \<and> 0x3B \<notin> set ty \<and> 0x2F \<notin> set ty
        \<and> 0x3A \<notin> set sub \<and> 0x3B \<notin> set sub \<and> 0x2F \<notin> set sub \<and> sub \<noteq> []"
  then show "snd (handleDownloadThumbnail now s) =
        Some \<lparr>href = thumbnailUrl s,
              download = lit ''dekhao-thumbnail-'' @ integer_to_string now @ lit ''.'' @ sub\<rparr>"
    using download_extension_subtype [of s ty sub rest now] by blast
next
  assume "thumbnailUrl s = lit ''data:'' @ m @ [0x3B] @ rest'
        \<and> 0x3A \<notin> set m \<and> 0x3B \<notin> set m \<and> 0x2F \<notin> set m"
  then show "snd (handleDownloadThumbnail now s) =
        Some \<lparr>href = thumbnailUrl s,
              download = lit ''dekhao-thumbnail-'' @ integer_to_string now @ lit ''.jpeg''\<rparr>"
    using download_extension_no_subtype [of s m rest' now] by blast
next
  assume "thumbnailUrl s \<noteq> [] \<and> 0x3A \<notin> set (thumbnailUrl s)"
  then show "snd (handleDownloadThumbnail now s) =
        Some \<lparr>href = thumbnailUrl s,
              download = lit ''dekhao-thumbnail-'' @ integer_to_string now @ lit ''.jpeg''\<rparr>"
    using download_extension_default [of s now] by blast
qed


text \<open>
  No thumbnail; a PNG thumbnail at time stamp 1700000000000; a thumbnail whose mime
  type is missing; a thumbnail without a colon.
\<close>

theorem downloadThumbnail_filename_witness:
  "fst (handleDownloadThumbnail 1700000000000 thumbnail_state) = thumbnail_state
   \<and> thumbnailUrl initial_state = []
   \<and> snd (handleDownloadThumbnail 1700000000000 initial_state) = None
   \<and> thumbnailUrl thumbnail_state = lit ''data:image/png;base64,QUJD''
   \<and> snd (handleDownloadThumbnail 1700000000000 thumbnail_state) =
       Some \<lparr>href = lit ''data:image/png;base64,QUJD'',
             download = lit ''dekhao-thumbnail-1700000000000.png''\<rparr>
   \<and> thumbnailUrl untyped_thumbnail_state = lit ''data:undefined;base64,QUJD''
   \<and> snd (handleDownloadThumbnail 1700000000000 untyped_thumbnail_state) =
       Some \<lparr>href = lit ''data:undefined;base64,QUJD'',
             download = lit ''dekhao-thumbnail-1700000000000.jpeg''\<rparr>
   \<and> thumbnailUrl opaque_thumbnail_state = lit ''QUJD''
   \<and> snd (handleDownloadThumbnail 1700000000000 opaque_thumbnail_state) =
       Some \<lparr>href = lit ''QUJD'',
             download = lit ''dekhao-thumbnail-1700000000000.jpeg''\<rparr>"
proof -
  have u0: "thumbnailUrl initial_state = []"
    by (simp add: initial_state_def)
  have u1: "thumbnailUrl thumbnail_state = lit ''data:image/png;base64,QUJD''"
    by (simp add: thumbnail_state_def initial_state_def)
  have u2: "thumbnailUrl untyped_thumbnail_state = lit ''data:undefined;base64,QUJD''"
    by (simp add: untyped_thumbnail_state_def initial_state_def)
  have u3: "thumbnailUrl opaque_thumbnail_state = lit ''QUJD''"
    by (simp add: opaque_thumbnail_state_def initial_state_def)
  have h1: "lit ''data:image/png;base64,QUJD''
      = lit ''data:'' @ lit ''image'' @ [0x2F] @ lit ''png'' @ [0x3B] @ lit ''base64,QUJD''
    \<and> 0x3A \<notin> set (lit ''image'') \<and> 0x3B \<notin> set (lit ''image'') \<and> 0x2F \<notin> set (lit ''image'')
    \<and> 0x3A \<notin> set (lit ''png'') \<and> 0x3B \<notin> set (lit ''png'') \<and> 0x2F \<notin> set (lit ''png'')
    \<and> lit ''png'' \<noteq> []"
    by (simp add: lit_def)
  have h2: "lit ''data:undefined;base64,QUJD''
      = lit ''data:'' @ lit ''undefined'' @ [0x3B] @ lit ''base64,QUJD''
    \<and> 0x3A \<notin> set (lit ''undefined'') \<and> 0x3B \<notin> set (lit ''undefined'')
    \<and> 0x2F \<notin> set (lit ''undefined'')"
    by (simp add: lit_def)
  have h3: "lit ''QUJD'' \<noteq> [] \<and> 0x3A \<notin> set (lit ''QUJD'')"
    by (simp add: lit_def)
  have n: "lit ''dekhao-thumbnail-'' @ lit ''1700000000000'' @ lit ''.'' @ lit ''png''
             = lit ''dekhao-thumbnail-1700000000000.png''"
    "lit ''dekhao-thumbnail-'' @ lit ''1700000000000'' @ lit ''.jpeg''
             = lit ''dekhao-thumbnail-1700000000000.jpeg''"
    by (simp_all add: lit_def)
  note t0 = downloadThumbnail_filename [of 1700000000000 initial_state]
  note t1 = downloadThumbnail_filename [of 1700000000000 thumbnail_state
      "lit ''image''" "lit ''png''" "lit ''base64,QUJD''"]
  note t2 = downloadThumbnail_filename [of 1700000000000 untyped_thumbnail_state _ _ _
      "lit ''undefined''" "lit ''base64,QUJD''"]
  note t3 = downloadThumbnail_filename [of 1700000000000 opaque_thumbnail_state]
  have r0: "snd (handleDownloadThumbnail 1700000000000 initial_state) = None"
    using t0 u0 by blast
  have r1: "snd (handleDownloadThumbnail 1700000000000 thumbnail_state) =
       Some \<lparr>href = lit ''data:image/png;base64,QUJD'',
             download = lit ''dekhao-thumbnail-1700000000000.png''\<rparr>"
    using t1 h1 unfolding u1 timestamp_digits n by blast
  have r2: "snd (handleDownloadThumbnail 1700000000000 untyped_thumbnail_state) =
       Some \<lparr>href = lit ''data:undefined;base64,QUJD'',
             download = lit ''dekhao-thumbnail-1700000000000.jpeg''\<rparr>"
    using t2 h2 unfolding u2 timestamp_digits n by blast
  have r3: "snd (handleDownloadThumbnail 1700000000000 opaque_thumbnail_state) =
       Some \<lparr>href = lit ''QUJD'',
             download = lit ''dekhao-thumbnail-1700000000000.jpeg''\<rparr>"
    using t3 h3 unfolding u3 timestamp_digits n by blast
  have r: "fst (handleDownloadThumbnail 1700000000000 thumbnail_state) = thumbnail_state"
    using t1 by blast
  show ?thesis
    using r r0 r1 r2 r3 u0 u1 u2 u3 by blast
qed

subsection \<open>C10: a failed text step keeps the thumbnail prompt\<close>

text \<open>
  C10: when the text-generation step of handleGenerateAll fails, the thumbnail prompt
  after the run is the one before it. The run changes the generated content, the
  thumbnail, the error, the copied flags and the busy flags, and no other field: the
  reset before the \<open>try\<close> block does not write the prompt, and the prompt is written
  only after a successful text step.
\<close>

theorem failed_text_step_keeps_prompt:
  assumes "trim (videoIdea s) \<noteq> []"
    and "fst (generateTextContent ai (videoIdea s)) = Inl e"
  shows "thumbnailPrompt (fst (handleGenerateAll ai s)) = thumbnailPrompt s
    \<and> map (thumbnailPrompt \<circ> fst) (snd (handleGenerateAll ai s)) = [thumbnailPrompt s]
    \<and> fst (handleGenerateAll ai s) =
        s\<lparr>generatedContent := JNull, thumbnailUrl := [],
          error := lit ''Failed to generate video details from AI.'',
          copiedStates := Map.empty,
          isLoading := False, isTextLoading := False, isThumbnailLoading := False\<rparr>"
  using assms(1) try_text_failure [OF assms(2)]
  by (simp add: handleGenerateAll_def Let_def handleError_def)

text \<open>A prompt typed by the user survives a GenerateAll whose text step fails.\<close>

theorem failed_text_step_keeps_prompt_witness:
  "trim (videoIdea camera_state) \<noteq> []
   \<and> fst (generateTextContent failing_env (videoIdea camera_state))
       = Inl (Error (lit ''Failed to generate video details from AI.''))
   \<and> thumbnailPrompt (fst (handleGenerateAll failing_env camera_state))
       = lit ''A red camera on a desk''"
  using failed_text_step_keeps_prompt [OF camera_idea_not_blank failing_text_content]
    camera_idea_not_blank failing_text_content [of "videoIdea camera_state"]
  by (simp add: camera_state_def initial_state_def)

end
